theory Spec2Isabelle
  imports Main "HOL-Library.Sublist" "HOL-Library.Word"
begin

section \<open>Python values\<close>

text \<open>
  A Python \<open>str\<close> is a sequence of Unicode code points and a \<open>bytes\<close> object a
  sequence of octets. String literals of the source that are plain ASCII are written
  \<open>ascii ''...''\<close>; the Chinese literals are written as lists of code points.
\<close>

type_synonym pystr = "nat list"

type_synonym bytes = "8 word list"

definition ascii :: "string \<Rightarrow> pystr" where
  "ascii cs = map of_char cs"

text \<open>
  Exceptions are values: the class of the exception and \<open>str(e)\<close>. Every class listed
  is a subclass of Python's \<open>Exception\<close>; \<open>LibraryError\<close> stands for any other
  \<open>Exception\<close> subclass raised inside requests, Playwright, psutil or subprocess.
  Signals that are not \<open>Exception\<close>s (\<open>KeyboardInterrupt\<close>, \<open>SystemExit\<close>) are
  outside the model.
\<close>

datatype exn_class =
  Exception | KeyError | TypeError | ValueError | AttributeError | OverflowError
  | UnicodeEncodeError | UnicodeDecodeError | PlaywrightTimeoutError | LibraryError

datatype exn = Exn exn_class pystr

fun exn_class_of :: "exn \<Rightarrow> exn_class" where
  "exn_class_of (Exn c m) = c"

fun str_exn :: "exn \<Rightarrow> pystr" where
  "str_exn (Exn c m) = m"

definition is_UnicodeError :: "exn \<Rightarrow> bool" where
  "is_UnicodeError e = (exn_class_of e = UnicodeEncodeError \<or> exn_class_of e = UnicodeDecodeError)"

text \<open>
  The values the code is handed as content: \<open>None\<close>, a \<open>str\<close> or a \<open>bytes\<close> object.
\<close>

datatype pyval = PyNone | PyStr pystr | PyBytes bytes

fun py_not :: "pyval \<Rightarrow> bool" where
  "py_not PyNone = True"
| "py_not (PyStr s) = (s = [])"
| "py_not (PyBytes b) = (b = [])"

fun isinstance_str :: "pyval \<Rightarrow> bool" where
  "isinstance_str (PyStr s) = True"
| "isinstance_str v = False"

fun isinstance_bytes :: "pyval \<Rightarrow> bool" where
  "isinstance_bytes (PyBytes b) = True"
| "isinstance_bytes v = False"

text \<open>
  \<open>str(b)\<close> of a bytes object is its \<open>repr\<close>: the prefix \<open>b\<close>, a quote (a double
  quote when the bytes hold a single quote and no double quote), the escaped octets, the
  quote.
\<close>

definition hexdigit :: "nat \<Rightarrow> nat" where
  "hexdigit d = (if d < 10 then 48 + d else 87 + d)"

definition repr_byte :: "nat \<Rightarrow> nat \<Rightarrow> pystr" where
  "repr_byte quote c =
     (if c = quote \<or> c = 92 then [92, c]
      else if c = 9 then [92, 116]
      else if c = 10 then [92, 110]
      else if c = 13 then [92, 114]
      else if c < 32 \<or> c \<ge> 127 then [92, 120, hexdigit (c div 16), hexdigit (c mod 16)]
      else [c])"

definition bytes_repr :: "bytes \<Rightarrow> pystr" where
  "bytes_repr b =
     (let cs = map unat b;
          quote = (if 39 \<in> set cs \<and> 34 \<notin> set cs then 34 else 39)
      in [98, quote] @ concat (map (repr_byte quote) cs) @ [quote])"

fun py_str :: "pyval \<Rightarrow> pystr" where
  "py_str PyNone = ascii ''None''"
| "py_str (PyStr s) = s"
| "py_str (PyBytes b) = bytes_repr b"

section \<open>The Python runtime the normaliser runs on\<close>

text \<open>
  Library data and settings that are not part of the repository are parameters:
  the table \<open>html.entities.html5\<close> of named character references, the codecs behind
  \<open>bytes.decode\<close> (\<open>None\<close> is a \<open>UnicodeDecodeError\<close>), and the interpreter's limit
  on the number of digits \<open>int()\<close> converts from a decimal string (4300 by default since
  CPython 3.11, 0 switches the limit off).
\<close>

record py_runtime =
  html5 :: "pystr \<rightharpoonup> pystr"
  decode :: "pystr \<Rightarrow> bytes \<Rightarrow> pystr option"
  int_max_str_digits :: nat

subsection \<open>html.unescape\<close>

text \<open>
  The standard library's function, from its source:
  \<^verbatim>\<open>
  _charref = re.compile(r'&(#[0-9]+;?'
                        r'|#[xX][0-9a-fA-F]+;?'
                        r'|[^\t\n\f <&#;]{1,32};?)')
  def unescape(s):
      if '&' not in s:
          return s
      return _charref.sub(_replace_charref, s)
  \<close>
\<close>

definition is_digit :: "nat \<Rightarrow> bool" where
  "is_digit c = (48 \<le> c \<and> c \<le> 57)"

definition is_hexdigit :: "nat \<Rightarrow> bool" where
  "is_hexdigit c = (is_digit c \<or> (97 \<le> c \<and> c \<le> 102) \<or> (65 \<le> c \<and> c \<le> 70))"

definition is_name_char :: "nat \<Rightarrow> bool" where
  "is_name_char c = (c \<notin> {9, 10, 12, 32, 60, 38, 35, 59})"

definition opt_semicolon :: "pystr \<Rightarrow> pystr" where
  "opt_semicolon rest = (case rest of [] \<Rightarrow> [] | c # cs \<Rightarrow> if c = 59 then [59] else [])"

text \<open>
  \<open>match_charref rest\<close> is group 1 of \<open>_charref\<close> matched at an ampersand that is
  followed by \<open>rest\<close>: the three alternatives in order, each quantifier greedy.
\<close>

definition match_decimal :: "pystr \<Rightarrow> pystr option" where
  "match_decimal rest =
     (case rest of
        [] \<Rightarrow> None
      | c # cs \<Rightarrow>
          if c = 35 \<and> takeWhile is_digit cs \<noteq> []
          then Some (35 # takeWhile is_digit cs @ opt_semicolon (dropWhile is_digit cs))
          else None)"

definition match_hex :: "pystr \<Rightarrow> pystr option" where
  "match_hex rest =
     (case rest of
        c # x # cs \<Rightarrow>
          if c = 35 \<and> (x = 120 \<or> x = 88) \<and> takeWhile is_hexdigit cs \<noteq> []
          then Some (35 # x # takeWhile is_hexdigit cs @ opt_semicolon (dropWhile is_hexdigit cs))
          else None
      | _ \<Rightarrow> None)"

definition match_name :: "pystr \<Rightarrow> pystr option" where
  "match_name rest =
     (let run = takeWhile is_name_char (take 32 rest)
      in if run = [] then None
         else Some (run @ opt_semicolon (drop (length run) rest)))"

definition match_charref :: "pystr \<Rightarrow> pystr option" where
  "match_charref rest =
     (case match_decimal rest of
        Some g \<Rightarrow> Some g
      | None \<Rightarrow> (case match_hex rest of Some g \<Rightarrow> Some g | None \<Rightarrow> match_name rest))"

definition rstrip_semicolon :: "pystr \<Rightarrow> pystr" where
  "rstrip_semicolon s = rev (dropWhile (\<lambda>c. c = 59) (rev s))"

definition digit_val :: "nat \<Rightarrow> nat" where
  "digit_val c = (if is_digit c then c - 48 else if 97 \<le> c then c - 87 else c - 55)"

definition int_base :: "nat \<Rightarrow> pystr \<Rightarrow> nat" where
  "int_base b ds = foldl (\<lambda>a d. b * a + digit_val d) 0 ds"

text \<open>
  \<open>int(ds)\<close> of a decimal digit string raises \<open>ValueError\<close> beyond the interpreter's
  digit limit; \<open>int(ds, 16)\<close> has no limit.
\<close>

definition int_decimal :: "py_runtime \<Rightarrow> pystr \<Rightarrow> exn + nat" where
  "int_decimal rt ds =
     (if int_max_str_digits rt \<noteq> 0 \<and> length ds > int_max_str_digits rt
      then Inl (Exn ValueError (ascii ''Exceeds the limit for integer string conversion''))
      else Inr (int_base 10 ds))"

definition invalid_charrefs :: "nat \<rightharpoonup> pystr" where
  "invalid_charrefs = map_of
     [(0x00, [0xFFFD]), (0x0D, [0x0D]), (0x80, [0x20AC]), (0x81, [0x81]), (0x82, [0x201A]),
      (0x83, [0x0192]), (0x84, [0x201E]), (0x85, [0x2026]), (0x86, [0x2020]), (0x87, [0x2021]),
      (0x88, [0x02C6]), (0x89, [0x2030]), (0x8A, [0x0160]), (0x8B, [0x2039]), (0x8C, [0x0152]),
      (0x8D, [0x8D]), (0x8E, [0x017D]), (0x8F, [0x8F]), (0x90, [0x90]), (0x91, [0x2018]),
      (0x92, [0x2019]), (0x93, [0x201C]), (0x94, [0x201D]), (0x95, [0x2022]), (0x96, [0x2013]),
      (0x97, [0x2014]), (0x98, [0x02DC]), (0x99, [0x2122]), (0x9A, [0x0161]), (0x9B, [0x203A]),
      (0x9C, [0x0153]), (0x9D, [0x9D]), (0x9E, [0x017E]), (0x9F, [0x0178])]"

definition invalid_codepoint :: "nat \<Rightarrow> bool" where
  "invalid_codepoint n =
     ((0x1 \<le> n \<and> n \<le> 0x8) \<or> (0xE \<le> n \<and> n \<le> 0x1F) \<or> (0x7F \<le> n \<and> n \<le> 0x9F)
      \<or> (0xFDD0 \<le> n \<and> n \<le> 0xFDEF) \<or> n = 0xB
      \<or> (n \<le> 0x10FFFF \<and> (n mod 0x10000 = 0xFFFE \<or> n mod 0x10000 = 0xFFFF)))"

definition numeric_charref :: "nat \<Rightarrow> pystr" where
  "numeric_charref num =
     (case invalid_charrefs num of
        Some r \<Rightarrow> r
      | None \<Rightarrow>
          if (0xD800 \<le> num \<and> num \<le> 0xDFFF) \<or> num > 0x10FFFF then [0xFFFD]
          else if invalid_codepoint num then []
          else [num])"

text \<open>
  The longest-prefix search of a named reference:
  \<^verbatim>\<open>
  for x in range(len(s)-1, 1, -1):
      if s[:x] in _html5:
          return _html5[s[:x]] + s[x:]
  else:
      return '&' + s
  \<close>
\<close>

fun longest_name :: "(pystr \<rightharpoonup> pystr) \<Rightarrow> pystr \<Rightarrow> nat \<Rightarrow> pystr" where
  "longest_name tab s 0 = 38 # s"
| "longest_name tab s (Suc x) =
     (if Suc x \<le> 1 then 38 # s
      else (case tab (take (Suc x) s) of
              Some r \<Rightarrow> r @ drop (Suc x) s
            | None \<Rightarrow> longest_name tab s x))"

definition replace_charref :: "py_runtime \<Rightarrow> pystr \<Rightarrow> exn + pystr" where
  "replace_charref rt s =
     (case s of
        [] \<Rightarrow> Inl (Exn LibraryError (ascii ''string index out of range''))
      | c # s1 \<Rightarrow>
          if c = 35 then
            (case s1 of
               [] \<Rightarrow> Inl (Exn LibraryError (ascii ''string index out of range''))
             | x # s2 \<Rightarrow>
                 if x = 120 \<or> x = 88
                 then Inr (numeric_charref (int_base 16 (rstrip_semicolon s2)))
                 else (case int_decimal rt (rstrip_semicolon s1) of
                         Inl e \<Rightarrow> Inl e
                       | Inr num \<Rightarrow> Inr (numeric_charref num)))
          else (case html5 rt s of
                  Some r \<Rightarrow> Inr r
                | None \<Rightarrow> Inr (longest_name (html5 rt) s (length s - 1))))"

fun charref_sub :: "py_runtime \<Rightarrow> pystr \<Rightarrow> exn + pystr" where
  "charref_sub rt [] = Inr []"
| "charref_sub rt (c # cs) =
     (if c = 38 then
        (case match_charref cs of
           None \<Rightarrow> (case charref_sub rt cs of Inl e \<Rightarrow> Inl e | Inr out \<Rightarrow> Inr (c # out))
         | Some g \<Rightarrow>
             (case replace_charref rt g of
                Inl e \<Rightarrow> Inl e
              | Inr r \<Rightarrow>
                  (case charref_sub rt (drop (length g) cs) of
                     Inl e \<Rightarrow> Inl e
                   | Inr out \<Rightarrow> Inr (r @ out))))
      else (case charref_sub rt cs of Inl e \<Rightarrow> Inl e | Inr out \<Rightarrow> Inr (c # out)))"

definition unescape :: "py_runtime \<Rightarrow> pystr \<Rightarrow> exn + pystr" where
  "unescape rt s = (if 38 \<notin> set s then Inr s else charref_sub rt s)"

text \<open>\<open>html.unescape\<close> of a value that is not a \<open>str\<close> fails at \<open>'&' not in s\<close>.\<close>

fun html_unescape :: "py_runtime \<Rightarrow> pyval \<Rightarrow> exn + pystr" where
  "html_unescape rt (PyStr s) = unescape rt s"
| "html_unescape rt v = Inl (Exn TypeError (ascii ''a bytes-like object is required''))"

subsection \<open>The normalisers\<close>

text \<open>
  The \<open>for encoding in ['utf-8', 'gbk', 'gb2312', 'gb18030']\<close> loop of both
  normalisers: the first encoding that decodes wins; when none does the variable keeps
  the bytes object.
\<close>

definition encodings :: "pystr list" where
  "encodings = [ascii ''utf-8'', ascii ''gbk'', ascii ''gb2312'', ascii ''gb18030'']"

fun decode_loop :: "py_runtime \<Rightarrow> bytes \<Rightarrow> pystr list \<Rightarrow> pyval" where
  "decode_loop rt b [] = PyBytes b"
| "decode_loop rt b (enc # encs) =
     (case decode rt enc b of
        Some s \<Rightarrow> PyStr s
      | None \<Rightarrow> decode_loop rt b encs)"

text \<open>\<open>''.join(ch for ch in content if ord(ch) >= 32 or ch in '\n\t\r')\<close>\<close>

definition strip_control :: "pystr \<Rightarrow> pystr" where
  "strip_control s = filter (\<lambda>ch. ch \<ge> 32 \<or> ch = 10 \<or> ch = 9 \<or> ch = 13) s"

text \<open>
  \<open>BinancePublisher._preprocess_content\<close> (lines 366-399). The check for Chinese
  characters at the end only logs a warning; logging is not modelled.
\<close>

definition preprocess_content :: "py_runtime \<Rightarrow> pyval \<Rightarrow> exn + pystr" where
  "preprocess_content rt content0 =
     (if py_not content0 then Inr []
      else
        let content1 = (if \<not> isinstance_str content0 then PyStr (py_str content0) else content0);
            content2 = (case content1 of
                          PyBytes b \<Rightarrow>
                            (case decode rt (ascii ''utf-8'') b of
                               Some s \<Rightarrow> PyStr s
                             | None \<Rightarrow> decode_loop rt b encodings)
                        | v \<Rightarrow> v)
        in (case html_unescape rt content2 of
              Inl e \<Rightarrow> Inl e
            | Inr s \<Rightarrow> Inr (strip_control s)))"

text \<open>
  \<open>WXPublisher._preprocess_article\<close> (lines 80-123). The body of its \<open>try\<close> is
  modelled by the exception it raises, if any, together with the value the variable
  \<open>article\<close> holds when it is left; \<open>str.encode('utf-8')\<close> raises
  \<open>UnicodeEncodeError\<close> on a surrogate code point.
\<close>

definition encode_utf8_exn :: "pystr \<Rightarrow> exn option" where
  "encode_utf8_exn s =
     (if list_all (\<lambda>c. \<not> (0xD800 \<le> c \<and> c \<le> 0xDFFF)) s then None
      else Some (Exn UnicodeEncodeError (ascii ''surrogates not allowed'')))"

definition check_utf8 :: "py_runtime \<Rightarrow> pyval \<Rightarrow> exn option \<times> pyval" where
  "check_utf8 rt article =
     (case article of
        PyBytes b \<Rightarrow>
          (case decode rt (ascii ''utf-8'') b of
             None \<Rightarrow> (Some (Exn UnicodeDecodeError (ascii ''invalid start byte'')), article)
           | Some s \<Rightarrow> (encode_utf8_exn s, PyStr s))
      | PyStr s \<Rightarrow> (encode_utf8_exn s, article)
      | PyNone \<Rightarrow> (Some (Exn AttributeError (ascii ''encode'')), article))"

definition repair_encoding :: "py_runtime \<Rightarrow> pyval \<Rightarrow> pyval" where
  "repair_encoding rt article =
     (case article of PyBytes b \<Rightarrow> decode_loop rt b encodings | v \<Rightarrow> v)"

definition preprocess_article :: "py_runtime \<Rightarrow> pyval \<Rightarrow> exn + pystr" where
  "preprocess_article rt article0 =
     (if py_not article0 then Inr []
      else
        let article1 = (if \<not> isinstance_str article0 then PyStr (py_str article0) else article0)
        in (case check_utf8 rt article1 of
              (None, article2) \<Rightarrow>
                (case html_unescape rt article2 of
                   Inl e \<Rightarrow> Inl e
                 | Inr s \<Rightarrow> Inr (strip_control s))
            | (Some e, article2) \<Rightarrow>
                if is_UnicodeError e
                then (case html_unescape rt (repair_encoding rt article2) of
                        Inl e' \<Rightarrow> Inl e'
                      | Inr s \<Rightarrow> Inr (strip_control s))
                else Inl e))"



text \<open>
  A runtime to evaluate on: an excerpt of the table of named references, codecs that
  decode ASCII only, and CPython's default digit limit.
\<close>

definition decode_ascii :: "pystr \<Rightarrow> bytes \<Rightarrow> pystr option" where
  "decode_ascii enc b = (if list_all (\<lambda>c. c < 128) (map unat b) then Some (map unat b) else None)"

definition rt_default :: py_runtime where
  "rt_default =
     \<lparr>html5 = map_of
        [(ascii ''amp;'', [38]), (ascii ''amp'', [38]), (ascii ''lt;'', [60]), (ascii ''lt'', [60]),
         (ascii ''gt;'', [62]), (ascii ''gt'', [62]), (ascii ''quot;'', [34]), (ascii ''quot'', [34]),
         (ascii ''nbsp;'', [160]), (ascii ''nbsp'', [160])],
      decode = decode_ascii,
      int_max_str_digits = 4300\<rparr>"

section \<open>The API publish engine (WXPublisher)\<close>

subsection \<open>JSON values\<close>

text \<open>
  The values of the fields the code reads from a parsed response. JSON numbers are
  modelled as integers; a nested array or object as the value of one of these fields is
  outside the model.
\<close>

datatype json = JNull | JBool bool | JInt int | JStr pystr

type_synonym jobj = "pystr \<rightharpoonup> json"

fun str_nat :: "nat \<Rightarrow> pystr" where
  "str_nat n = (if n < 10 then [48 + n] else str_nat (n div 10) @ [48 + n mod 10])"

declare str_nat.simps [simp del]

definition str_int :: "int \<Rightarrow> pystr" where
  "str_int i = (if i < 0 then 45 # str_nat (nat (- i)) else str_nat (nat i))"

text \<open>\<open>str(v)\<close>, as an f-string formats a value.\<close>

fun str_json :: "json \<Rightarrow> pystr" where
  "str_json JNull = ascii ''None''"
| "str_json (JBool b) = (if b then ascii ''True'' else ascii ''False'')"
| "str_json (JInt i) = str_int i"
| "str_json (JStr s) = s"

text \<open>
  Python compares and hashes \<open>True\<close> as 1 and \<open>False\<close> as 0; a string or \<open>None\<close>
  equals no integer.
\<close>

fun as_int :: "json \<Rightarrow> int option" where
  "as_int (JInt i) = Some i"
| "as_int (JBool b) = Some (if b then 1 else 0)"
| "as_int v = None"

definition py_eq_int :: "json \<Rightarrow> int \<Rightarrow> bool" where
  "py_eq_int v n = (as_int v = Some n)"

text \<open>\<open>d.get(key, default)\<close>\<close>

definition dict_get :: "jobj \<Rightarrow> pystr \<Rightarrow> json \<Rightarrow> json" where
  "dict_get d k dflt = (case d k of Some v \<Rightarrow> v | None \<Rightarrow> dflt)"

text \<open>\<open>d[key]\<close>, a \<open>KeyError\<close> when the key is missing.\<close>

definition dict_item :: "jobj \<Rightarrow> pystr \<Rightarrow> exn + json" where
  "dict_item d k = (case d k of Some v \<Rightarrow> Inr v | None \<Rightarrow> Inl (Exn KeyError ([39] @ k @ [39])))"

subsection \<open>The world of one call\<close>

text \<open>
  Times are \<open>datetime\<close> values counted in microseconds; the range limits of
  \<open>datetime\<close> (years 1 to 9999) are modelled where a response decides the value
  (\<open>expires_in\<close>), and the clock is taken to be more than a minute before the end of the
  year 9999.
\<close>

definition timedelta_minutes :: "int \<Rightarrow> int" where
  "timedelta_minutes n = n * 60000000"

definition datetime_max :: int where
  "datetime_max = 3652059 * 86400 * 1000000 - 1"

record article =
  article_title :: pyval
  article_author :: pystr
  article_digest :: pyval
  article_content :: pystr
  thumb_media_id :: json
  need_open_comment :: nat
  only_fans_can_comment :: nat

datatype payload =
    Articles "article list"
  | Media_id json
  | Publish_id json
  | Files bytes

datatype request = GET pystr | POST pystr payload

record response =
  resp_encoding :: "pystr option"
  resp_content :: bytes
  resp_json :: "exn + jobj"

text \<open>
  What a call reads from outside: the environment variables behind
  \<open>ConfigManager.get\<close>, the clock (read once at the freshness check and once more when
  a \<open>WeixinToken\<close> is built), the answers of the network (an exception or a response
  whose \<open>.json()\<close> is an exception or an object), \<open>json.dumps\<close>, and the Markdown
  conversion and template of lines 125-371, which only shape the body of the draft
  request.
\<close>

record wx_world =
  runtime :: py_runtime
  getenv :: "pystr \<Rightarrow> pystr"
  now :: int
  now_init :: int
  http :: "request \<Rightarrow> exn + response"
  json_dumps :: "jobj \<Rightarrow> pystr"
  md_template :: "pystr \<Rightarrow> pyval \<Rightarrow> exn + pystr"

record WeixinToken =
  access_token :: json
  expires_in :: json
  expires_at :: int

record WXPublisher =
  self_access_token :: "WeixinToken option"
  app_id :: "pystr option"
  app_secret :: "pystr option"

text \<open>
  \<open>WeixinToken.__init__\<close>: \<open>timedelta(seconds=expires_in)\<close> takes a number whose
  days have magnitude at most 999999999, and the sum with \<open>datetime.now()\<close> has to be a
  \<open>datetime\<close>.
\<close>

definition WeixinToken_init :: "wx_world \<Rightarrow> json \<Rightarrow> json \<Rightarrow> exn + WeixinToken" where
  "WeixinToken_init w tok exp_in =
     (case as_int exp_in of
        None \<Rightarrow> Inl (Exn TypeError (ascii ''unsupported type for timedelta seconds component''))
      | Some n \<Rightarrow>
          if \<bar>n div 86400\<bar> > 999999999
          then Inl (Exn OverflowError (ascii ''days; must have magnitude <= 999999999''))
          else if now_init w + n * 1000000 < 0 \<or> now_init w + n * 1000000 > datetime_max
          then Inl (Exn OverflowError (ascii ''date value out of range''))
          else Inr \<lparr>access_token = tok, expires_in = exp_in,
                    expires_at = now_init w + n * 1000000\<rparr>)"

definition refresh :: "wx_world \<Rightarrow> WXPublisher \<Rightarrow> WXPublisher" where
  "refresh w self =
     self\<lparr>app_id := Some (getenv w (ascii ''WEIXIN_APP_ID'')),
          app_secret := Some (getenv w (ascii ''WEIXIN_APP_SECRET''))\<rparr>"

definition token_url :: "WXPublisher \<Rightarrow> pystr" where
  "token_url self =
     ascii ''https://api.weixin.qq.com/cgi-bin/token?grant_type=client_credential&appid=''
     @ (case app_id self of Some a \<Rightarrow> a | None \<Rightarrow> ascii ''None'')
     @ ascii ''&secret=''
     @ (case app_secret self of Some s \<Rightarrow> s | None \<Rightarrow> ascii ''None'')"

text \<open>
  Every operation returns its result or the exception it raises, the publisher object
  as the call leaves it, and the requests it sent, in order.
\<close>

type_synonym 'a wx_result = "(exn + 'a) \<times> WXPublisher \<times> request list"

text \<open>Lines 61-78 of \<open>ensure_access_token\<close>: the credential exchange.\<close>

definition token_of_response :: "wx_world \<Rightarrow> jobj \<Rightarrow> exn + WeixinToken" where
  "token_of_response w r =
     (if ascii ''access_token'' \<notin> dom r
      then Inl (Exn Exception
             ([0x83B7, 0x53D6] @ ascii ''access_token'' @ [0x5931, 0x8D25] @ ascii '': ''
              @ json_dumps w r))
      else (case dict_item r (ascii ''access_token'') of
              Inl e \<Rightarrow> Inl e
            | Inr tok \<Rightarrow>
                (case dict_item r (ascii ''expires_in'') of
                   Inl e \<Rightarrow> Inl e
                 | Inr exp_in \<Rightarrow> WeixinToken_init w tok exp_in)))"

definition fetch_access_token :: "wx_world \<Rightarrow> WXPublisher \<Rightarrow> json wx_result" where
  "fetch_access_token w self =
     (let self1 = refresh w self;
          req = GET (token_url self1)
      in (case http w req of
            Inl e \<Rightarrow> (Inl e, self1, [req])
          | Inr resp \<Rightarrow>
              (case resp_json resp of
                 Inl e \<Rightarrow> (Inl e, self1, [req])
               | Inr r \<Rightarrow>
                   (case token_of_response w r of
                      Inl e \<Rightarrow> (Inl e, self1, [req])
                    | Inr t \<Rightarrow>
                        (Inr (access_token t), self1\<lparr>self_access_token := Some t\<rparr>, [req])))))"

text \<open>
  The test of lines 57-58:
  \<open>self.access_token and self.access_token.expires_at > datetime.now() + timedelta(minutes=1)\<close>.
\<close>

definition token_is_fresh :: "wx_world \<Rightarrow> WXPublisher \<Rightarrow> bool" where
  "token_is_fresh w self =
     (case self_access_token self of
        None \<Rightarrow> False
      | Some t \<Rightarrow> expires_at t > now w + timedelta_minutes 1)"

definition ensure_access_token :: "wx_world \<Rightarrow> WXPublisher \<Rightarrow> json wx_result" where
  "ensure_access_token w self =
     (if token_is_fresh w self
      then (case self_access_token self of
              Some t \<Rightarrow> (Inr (access_token t), self, [])
            | None \<Rightarrow> fetch_access_token w self)
      else fetch_access_token w self)"

text \<open>
  Lines 574-584, the same in \<open>upload_draft\<close>, \<open>direct_publish\<close> and
  \<open>check_publish_status\<close>: the POST, \<open>response.encoding.lower()\<close> (an
  \<open>AttributeError\<close> when the response names no encoding) and \<open>response.json()\<close>.
\<close>

definition post_json :: "wx_world \<Rightarrow> request \<Rightarrow> exn + jobj" where
  "post_json w req =
     (case http w req of
        Inl e \<Rightarrow> Inl e
      | Inr resp \<Rightarrow>
          (case resp_encoding resp of
             None \<Rightarrow> Inl (Exn AttributeError (ascii ''lower''))
           | Some enc \<Rightarrow> resp_json resp))"

subsection \<open>upload_draft\<close>

record draft_handle =
  media_id :: json

text \<open>Lines 432-435.\<close>

definition upload_draft_response :: "jobj \<Rightarrow> exn + draft_handle" where
  "upload_draft_response r =
     (if ascii ''errcode'' \<in> dom r
      then (case dict_item r (ascii ''errmsg'') of
              Inl e \<Rightarrow> Inl e
            | Inr m \<Rightarrow>
                Inl (Exn Exception
                  ([0x4E0A, 0x4F20, 0x8349, 0x7A3F, 0x5931, 0x8D25] @ ascii '': '' @ str_json m)))
      else (case dict_item r (ascii ''media_id'') of
              Inl e \<Rightarrow> Inl e
            | Inr m \<Rightarrow> Inr \<lparr>media_id = m\<rparr>))"

text \<open>
  \<open>if title and isinstance(title, str): title = self._preprocess_article(title)\<close>
\<close>

definition preprocess_field :: "py_runtime \<Rightarrow> pyval \<Rightarrow> exn + pyval" where
  "preprocess_field rt v =
     (if \<not> py_not v \<and> isinstance_str v
      then (case preprocess_article rt v of Inl e \<Rightarrow> Inl e | Inr s \<Rightarrow> Inr (PyStr s))
      else Inr v)"

definition draft_url :: "json \<Rightarrow> pystr" where
  "draft_url token =
     ascii ''https://api.weixin.qq.com/cgi-bin/draft/add?access_token='' @ str_json token"

text \<open>
  Lines 373-439. \<open>json.dumps\<close> of the articles raises \<open>TypeError\<close> on a title or
  digest that is a bytes object, before anything is sent.
\<close>

definition flag :: "wx_world \<Rightarrow> pystr \<Rightarrow> nat" where
  "flag w key = (if getenv w key = ascii ''true'' then 1 else 0)"

definition upload_draft ::
  "wx_world \<Rightarrow> WXPublisher \<Rightarrow> pyval \<Rightarrow> pyval \<Rightarrow> pyval \<Rightarrow> json \<Rightarrow> draft_handle wx_result" where
  "upload_draft w self art ttl dig mid =
     (case ensure_access_token w self of
        (Inl e, self1, tr) \<Rightarrow> (Inl e, self1, tr)
      | (Inr token, self1, tr) \<Rightarrow>
          (case preprocess_article (runtime w) art of
             Inl e \<Rightarrow> (Inl e, self1, tr)
           | Inr art1 \<Rightarrow>
               let art2 = (case md_template w art1 ttl of Inl e \<Rightarrow> art1 | Inr a \<Rightarrow> a)
               in (case preprocess_field (runtime w) ttl of
                     Inl e \<Rightarrow> (Inl e, self1, tr)
                   | Inr ttl1 \<Rightarrow>
                       (case preprocess_field (runtime w) dig of
                          Inl e \<Rightarrow> (Inl e, self1, tr)
                        | Inr dig1 \<Rightarrow>
                            if isinstance_bytes ttl1 \<or> isinstance_bytes dig1
                            then (Inl (Exn TypeError
                                    (ascii ''Object of type bytes is not JSON serializable'')),
                                  self1, tr)
                            else
                            let req = POST (draft_url token)
                                  (Articles
                                    [\<lparr>article_title = ttl1,
                                      article_author = getenv w (ascii ''AUTHOR''),
                                      article_digest = dig1,
                                      article_content = art2,
                                      thumb_media_id = mid,
                                      need_open_comment = flag w (ascii ''NEED_OPEN_COMMENT''),
                                      only_fans_can_comment =
                                        flag w (ascii ''ONLY_FANS_CAN_COMMENT'')\<rparr>])
                            in (case post_json w req of
                                  Inl e \<Rightarrow> (Inl e, self1, tr @ [req])
                                | Inr r \<Rightarrow> (upload_draft_response r, self1, tr @ [req]))))))"

subsection \<open>upload_image\<close>

definition default_media_id :: pystr where
  "default_media_id = ascii ''SwCSRjrdGJNaWioRQUHzgF68BHFkSlb_f5xlTquvsOSA6Yy0ZRjFo0aW9eS3JJu_''"

definition material_url :: "json \<Rightarrow> pystr" where
  "material_url token =
     ascii ''https://api.weixin.qq.com/cgi-bin/material/add_material?access_token=''
     @ str_json token @ ascii ''&type=image''"

text \<open>Lines 456-459.\<close>

definition upload_image_response :: "jobj \<Rightarrow> exn + json" where
  "upload_image_response r =
     (if ascii ''errcode'' \<in> dom r
      then (case dict_item r (ascii ''errmsg'') of
              Inl e \<Rightarrow> Inl e
            | Inr m \<Rightarrow>
                Inl (Exn Exception
                  ([0x4E0A, 0x4F20, 0x56FE, 0x7247, 0x5931, 0x8D25] @ ascii '': '' @ str_json m)))
      else dict_item r (ascii ''media_id''))"

text \<open>
  \<open>image_url\<close> is \<open>None\<close> or a \<open>str\<close>; \<open>not image_url\<close> holds of \<open>None\<close> and
  of the empty string.
\<close>

definition upload_image :: "wx_world \<Rightarrow> WXPublisher \<Rightarrow> pystr option \<Rightarrow> json wx_result" where
  "upload_image w self image_url =
     (case image_url of
        None \<Rightarrow> (Inr (JStr default_media_id), self, [])
      | Some u \<Rightarrow>
          if u = [] then (Inr (JStr default_media_id), self, [])
          else
            (case http w (GET u) of
               Inl e \<Rightarrow> (Inl e, self, [GET u])
             | Inr img \<Rightarrow>
                 (case ensure_access_token w self of
                    (Inl e, self1, tr) \<Rightarrow> (Inl e, self1, GET u # tr)
                  | (Inr token, self1, tr) \<Rightarrow>
                      let req = POST (material_url token) (Files (resp_content img))
                      in (case http w req of
                            Inl e \<Rightarrow> (Inl e, self1, GET u # tr @ [req])
                          | Inr resp \<Rightarrow>
                              (case resp_json resp of
                                 Inl e \<Rightarrow> (Inl e, self1, GET u # tr @ [req])
                               | Inr r \<Rightarrow>
                                   (upload_image_response r, self1, GET u # tr @ [req]))))))"

subsection \<open>direct_publish\<close>

record publish_ids =
  publish_id :: json
  msg_data_id :: json

text \<open>Lines 589-606.\<close>

definition direct_publish_response :: "jobj \<Rightarrow> exn + publish_ids" where
  "direct_publish_response r =
     (if ascii ''errcode'' \<in> dom r \<and> \<not> py_eq_int (dict_get r (ascii ''errcode'') JNull) 0
      then
        let error_msg = str_json (dict_get r (ascii ''errmsg'') (JStr [0x672A, 0x77E5, 0x9519, 0x8BEF]));
            error_code = dict_get r (ascii ''errcode'') (JInt (- 1));
            error_msg1 =
              (if py_eq_int error_code 53503
               then [0x8BE5, 0x8349, 0x7A3F, 0x672A, 0x901A, 0x8FC7, 0x53D1, 0x5E03, 0x68C0, 0x67E5]
               else if py_eq_int error_code 53504
               then [0x9700, 0x524D, 0x5F80, 0x516C, 0x4F17, 0x5E73, 0x53F0, 0x5B98, 0x7F51,
                     0x4F7F, 0x7528, 0x8349, 0x7A3F]
               else if py_eq_int error_code 53505
               then [0x8BF7, 0x624B, 0x52A8, 0x4FDD, 0x5B58, 0x6210, 0x529F, 0x540E, 0x518D,
                     0x53D1, 0x8868]
               else error_msg)
        in Inl (Exn Exception
             ([0x53D1, 0x5E03, 0x5931, 0x8D25] @ ascii '' ('' @ [0x9519, 0x8BEF, 0x7801] @ ascii '': ''
              @ str_json error_code @ ascii ''): '' @ error_msg1))
      else Inr \<lparr>publish_id = dict_get r (ascii ''publish_id'') (JStr []),
                msg_data_id = dict_get r (ascii ''msg_data_id'') (JStr [])\<rparr>)"



subsection \<open>check_publish_status\<close>






subsection \<open>Worlds to evaluate on\<close>

text \<open>
  A publisher as \<open>__init__\<close> leaves it, one that holds a token good for two more hours,
  and one whose token runs out thirty seconds after the clock of the sample world. The
  sample world is parameterised by the network.
\<close>

definition utf8_response :: "(pystr \<times> json) list \<Rightarrow> response" where
  "utf8_response kvs =
     \<lparr>resp_encoding = Some (ascii ''utf-8''), resp_content = [], resp_json = Inr (map_of kvs)\<rparr>"

definition wx_sample :: "(request \<Rightarrow> exn + response) \<Rightarrow> wx_world" where
  "wx_sample h =
     \<lparr>runtime = rt_default,
      getenv = (\<lambda>k. ascii ''x''),
      now = 63900000000000000,
      now_init = 63900000000000001,
      http = h,
      json_dumps = (\<lambda>r. ascii ''{}''),
      md_template = (\<lambda>a t. Inr a)\<rparr>"

definition publisher_new :: WXPublisher where
  "publisher_new = \<lparr>self_access_token = None, app_id = None, app_secret = None\<rparr>"

definition publisher_cached :: WXPublisher where
  "publisher_cached =
     \<lparr>self_access_token =
        Some \<lparr>access_token = JStr (ascii ''T0''), expires_in = JInt 7200,
              expires_at = 63900007200000000\<rparr>,
      app_id = None, app_secret = None\<rparr>"

definition publisher_stale :: WXPublisher where
  "publisher_stale =
     \<lparr>self_access_token =
        Some \<lparr>access_token = JStr (ascii ''T0''), expires_in = JInt 7200,
              expires_at = 63900000030000000\<rparr>,
      app_id = None, app_secret = None\<rparr>"

section \<open>The browser publish engine (BinancePublisher)\<close>

subsection \<open>Strings\<close>

text \<open>
  \<open>needle in haystack\<close> on strings, and \<open>str.lower\<close>. The source lowers process names
  and the URL of the page and looks for the words \<open>chrome\<close>, \<open>google chrome\<close> and
  \<open>login\<close> in them. For these tests it is enough to lower the letters A to Z: Python's
  \<open>lower\<close> maps no other character to a letter of these words, except U+0130 to an
  \<open>i\<close> that a combining dot follows, which no occurrence of \<open>login\<close> can use.
\<close>

fun py_in :: "pystr \<Rightarrow> pystr \<Rightarrow> bool" where
  "py_in needle [] = (needle = [])"
| "py_in needle (c # cs) = (prefix needle (c # cs) \<or> py_in needle cs)"

definition lower :: "pystr \<Rightarrow> pystr" where
  "lower s = map (\<lambda>c. if 65 \<le> c \<and> c \<le> 90 then c + 32 else c) s"

subsection \<open>Login verification\<close>

text \<open>
  The page as the login check probes it. Every Playwright call can raise.
\<close>

record page =
  page_content :: "exn + pystr"
  locator_count :: "pystr \<Rightarrow> exn + nat"
  first_is_visible :: "pystr \<Rightarrow> exn + bool"
  page_title :: "exn + pystr"
  page_url :: pystr

definition login_selectors :: "pystr list" where
  "login_selectors =
     [ascii ''button:has-text(\"'' @ [0x767B, 0x5F55] @ ascii ''\")'',
      ascii ''a:has-text(\"'' @ [0x767B, 0x5F55] @ ascii ''\")'',
      ascii ''div:has-text(\"'' @ [0x767B, 0x5F55] @ ascii ''\"):not(:has(*))'',
      ascii ''[href*=\"login\"]'']"

definition logged_in_selectors :: "pystr list" where
  "logged_in_selectors =
     [ascii ''div.css-1hsz9t1'',
      ascii ''.UserAvatar'',
      ascii ''a:has-text(\"'' @ [0x4E2A, 0x4EBA, 0x4E2D, 0x5FC3] @ ascii ''\")'',
      ascii ''[href*=\"my\"]'',
      ascii ''img.avatar'',
      ascii ''div.user-info'',
      ascii ''[data-testid=\"header-user-icon\"]'']"

definition editor_selector :: pystr where
  "editor_selector = ascii ''div.ProseMirror[contenteditable=\"true\"]''"

definition content_area_selector :: pystr where
  "content_area_selector = ascii ''.feed-publish-wrapper, .post-editor, div.dynamic-form''"

text \<open>\<open>elements.count() > 0 and elements.first.is_visible()\<close>\<close>

definition selector_visible :: "page \<Rightarrow> pystr \<Rightarrow> exn + bool" where
  "selector_visible p sel =
     (case locator_count p sel of
        Inl e \<Rightarrow> Inl e
      | Inr n \<Rightarrow> if n > 0 then first_is_visible p sel else Inr False)"

text \<open>The two \<open>for selector in ...\<close> loops, which return at the first visible match.\<close>

fun any_selector_visible :: "page \<Rightarrow> pystr list \<Rightarrow> exn + bool" where
  "any_selector_visible p [] = Inr False"
| "any_selector_visible p (sel # sels) =
     (case selector_visible p sel of
        Inl e \<Rightarrow> Inl e
      | Inr v \<Rightarrow> if v then Inr True else any_selector_visible p sels)"

text \<open>
  The body of the \<open>try\<close> of \<open>_check_login_status\<close> (lines 272-331). The loop over
  \<open>login_indicators\<close> only logs.
\<close>

definition check_login_body :: "page \<Rightarrow> exn + bool" where
  "check_login_body p =
     (case page_content p of
        Inl e \<Rightarrow> Inl e
      | Inr html_content \<Rightarrow>
     (case any_selector_visible p login_selectors of
        Inl e \<Rightarrow> Inl e
      | Inr login_shown \<Rightarrow>
          if login_shown then Inr False
          else
     (case any_selector_visible p logged_in_selectors of
        Inl e \<Rightarrow> Inl e
      | Inr user_shown \<Rightarrow>
          if user_shown then Inr True
          else
     (case locator_count p editor_selector of
        Inl e \<Rightarrow> Inl e
      | Inr n \<Rightarrow>
          if n > 0 then Inr True
          else
     (case page_title p of
        Inl e \<Rightarrow> Inl e
      | Inr ttl \<Rightarrow>
          if py_in [0x767B, 0x5F55] ttl \<or> py_in (ascii ''login'') (lower (page_url p))
          then Inr False
          else
     (case selector_visible p content_area_selector of
        Inl e \<Rightarrow> Inl e
      | Inr area_shown \<Rightarrow> if area_shown then Inr True else Inr False))))))"

text \<open>\<open>except Exception: return False\<close>\<close>

definition check_login_status :: "page \<Rightarrow> bool" where
  "check_login_status p = (case check_login_body p of Inl e \<Rightarrow> False | Inr b \<Rightarrow> b)"

text \<open>
  The specification's reading: a page state is a snapshot of the DOM, on which every
  probe answers, and login verification is an ordered list of rules, each a signal with
  its verdict, the first signal present deciding and \<open>LoggedOut\<close> the default. An element
  is visible for a group of selectors when, for one of them, there is a match and the
  first match is visible.
\<close>

record snapshot =
  snap_html :: pystr
  snap_count :: "pystr \<Rightarrow> nat"
  snap_first_visible :: "pystr \<Rightarrow> bool"
  snap_title :: pystr
  snap_url :: pystr

definition page_of :: "snapshot \<Rightarrow> page" where
  "page_of d =
     \<lparr>page_content = Inr (snap_html d),
      locator_count = (\<lambda>sel. Inr (snap_count d sel)),
      first_is_visible = (\<lambda>sel. Inr (snap_first_visible d sel)),
      page_title = Inr (snap_title d),
      page_url = snap_url d\<rparr>"

datatype verdict = LoggedIn | LoggedOut

definition selector_shows :: "snapshot \<Rightarrow> pystr \<Rightarrow> bool" where
  "selector_shows d sel = (snap_count d sel > 0 \<and> snap_first_visible d sel)"

definition login_element_visible :: "snapshot \<Rightarrow> bool" where
  "login_element_visible d = list_ex (selector_shows d) login_selectors"

definition user_indicator_visible :: "snapshot \<Rightarrow> bool" where
  "user_indicator_visible d = list_ex (selector_shows d) logged_in_selectors"

definition editor_present :: "snapshot \<Rightarrow> bool" where
  "editor_present d = (snap_count d editor_selector > 0)"

definition login_keyword :: "snapshot \<Rightarrow> bool" where
  "login_keyword d =
     (py_in [0x767B, 0x5F55] (snap_title d) \<or> py_in (ascii ''login'') (lower (snap_url d)))"

definition publish_surface_visible :: "snapshot \<Rightarrow> bool" where
  "publish_surface_visible d = selector_shows d content_area_selector"

definition login_rules :: "((snapshot \<Rightarrow> bool) \<times> verdict) list" where
  "login_rules =
     [(login_element_visible, LoggedOut),
      (user_indicator_visible, LoggedIn),
      (editor_present, LoggedIn),
      (login_keyword, LoggedOut),
      (publish_surface_visible, LoggedIn)]"

fun first_match :: "(('a \<Rightarrow> bool) \<times> verdict) list \<Rightarrow> 'a \<Rightarrow> verdict" where
  "first_match [] d = LoggedOut"
| "first_match ((signal, v) # rules) d = (if signal d then v else first_match rules d)"

definition login_verification :: "snapshot \<Rightarrow> verdict" where
  "login_verification d = first_match login_rules d"

text \<open>A snapshot to evaluate on: its only elements are those the given selectors match.\<close>

definition snapshot_with :: "pystr list \<Rightarrow> snapshot" where
  "snapshot_with sels =
     \<lparr>snap_html = [],
      snap_count = (\<lambda>sel. if sel \<in> set sels then 1 else 0),
      snap_first_visible = (\<lambda>sel. sel \<in> set sels),
      snap_title = ascii ''Binance Square'',
      snap_url = ascii ''https://www.binance.com/zh-CN/square''\<rparr>"

subsection \<open>The publish attempt\<close>

text \<open>
  The operations \<open>push_to_binance\<close> performs on the world outside: on processes, on
  Playwright and on the browser. Each can raise. Screenshots carry the tag of their
  file name, the launch the profile directory it was given.
\<close>

datatype op =
    Subprocess_run "pystr list"
  | Sleep nat
  | Sync_playwright_enter
  | Launch_persistent_context pystr
  | New_page
  | Goto pystr
  | Debug_screenshot pystr
  | Wait_for_load_state
  | Editor_wait_for
  | Editor_clear
  | Editor_set_innerHTML pystr
  | Editor_click
  | Editor_has_text
  | Editor_type pystr
  | Post_button_wait_for
  | Post_button_click
  | Wait_for_timeout nat
  | Error_screenshot
  | Browser_close
  | Sync_playwright_exit

text \<open>
  What a publish attempt meets: the exception an operation raises, if it raises one;
  the process names \<open>psutil\<close> lists before and after the kill (a name can be \<open>None\<close>);
  the platform, the file system and the clock's time stamp; the page as the login check
  finds it; and whether the editor holds text after the content was assigned.
\<close>

record browser_world =
  b_runtime :: py_runtime
  raises :: "op \<Rightarrow> exn option"
  process_names :: "exn + pystr option list"
  process_names_after :: "exn + pystr option list"
  platform_system :: pystr
  path_exists :: "pystr \<Rightarrow> bool"
  path_join :: "pystr \<Rightarrow> pystr \<Rightarrow> pystr"
  timestamp :: pystr
  loaded_page :: page
  editor_has_text :: bool

record BinancePublisher =
  data_path :: pystr
  chrome_user_dir :: pystr
  profile_name :: pystr

text \<open>
  The local variables \<open>browser\<close> and \<open>page\<close> (set or still \<open>None\<close>) and the
  operations performed so far, in order.
\<close>

record frame =
  browser_set :: bool
  page_set :: bool
  trace :: "op list"

definition perform :: "browser_world \<Rightarrow> op \<Rightarrow> frame \<Rightarrow> exn option \<times> frame" where
  "perform w a fr = (raises w a, fr\<lparr>trace := trace fr @ [a]\<rparr>)"

text \<open>Statements in sequence: the second runs only when the first raised nothing.\<close>

definition and_then ::
  "(frame \<Rightarrow> exn option \<times> frame) \<Rightarrow> (frame \<Rightarrow> (exn + 'a) \<times> frame) \<Rightarrow> frame \<Rightarrow> (exn + 'a) \<times> frame" where
  "and_then stmt rest fr =
     (case stmt fr of
        (Some e, fr1) \<Rightarrow> (Inl e, fr1)
      | (None, fr1) \<Rightarrow> rest fr1)"

text \<open>\<open>_is_chrome_running\<close> (lines 238-247), given what \<open>psutil.process_iter\<close> lists.\<close>

fun chrome_among :: "pystr option list \<Rightarrow> exn + bool" where
  "chrome_among [] = Inr False"
| "chrome_among (None # ns) = Inl (Exn AttributeError (ascii ''lower''))"
| "chrome_among (Some n # ns) =
     (if py_in (ascii ''chrome'') (lower n) \<or> py_in (ascii ''google chrome'') (lower n)
      then Inr True
      else chrome_among ns)"

definition is_chrome_running :: "exn + pystr option list \<Rightarrow> bool" where
  "is_chrome_running listing =
     (case listing of
        Inl e \<Rightarrow> False
      | Inr ns \<Rightarrow> (case chrome_among ns of Inl e \<Rightarrow> False | Inr b \<Rightarrow> b))"

text \<open>\<open>_close_all_chrome_instances\<close> (lines 249-267).\<close>

definition kill_commands :: "browser_world \<Rightarrow> op list" where
  "kill_commands w =
     (if platform_system w = ascii ''Darwin''
      then [Subprocess_run [ascii ''pkill'', ascii ''-9'', ascii ''Google Chrome''],
            Subprocess_run [ascii ''pkill'', ascii ''-9'', ascii ''Chrome'']]
      else if platform_system w = ascii ''Windows''
      then [Subprocess_run [ascii ''taskkill'', ascii ''/F'', ascii ''/IM'', ascii ''chrome.exe'']]
      else [Subprocess_run [ascii ''pkill'', ascii ''-9'', ascii ''chrome'']])"

fun perform_all :: "browser_world \<Rightarrow> op list \<Rightarrow> frame \<Rightarrow> exn option \<times> frame" where
  "perform_all w [] fr = (None, fr)"
| "perform_all w (a # ops) fr =
     (case perform w a fr of
        (Some e, fr1) \<Rightarrow> (Some e, fr1)
      | (None, fr1) \<Rightarrow> perform_all w ops fr1)"

definition close_all_chrome_instances :: "browser_world \<Rightarrow> frame \<Rightarrow> bool \<times> frame" where
  "close_all_chrome_instances w fr =
     (case perform_all w (kill_commands w @ [Sleep 2]) fr of
        (Some e, fr1) \<Rightarrow> (False, fr1)
      | (None, fr1) \<Rightarrow> (\<not> is_chrome_running (process_names_after w), fr1))"

text \<open>
  \<open>_save_debug_screenshot\<close> (lines 337-348) swallows what the screenshot raises;
  \<open>_save_error_screenshot\<close> (lines 350-364) returns the path, or the empty string when
  there is no page or the screenshot raises.
\<close>

definition save_debug_screenshot :: "browser_world \<Rightarrow> pystr \<Rightarrow> frame \<Rightarrow> exn option \<times> frame" where
  "save_debug_screenshot w tag fr =
     (if \<not> page_set fr then (None, fr)
      else (None, snd (perform w (Debug_screenshot tag) fr)))"

definition error_screenshot_path :: "browser_world \<Rightarrow> BinancePublisher \<Rightarrow> pystr" where
  "error_screenshot_path w self =
     path_join w (data_path self) (ascii ''error_screenshot_'' @ timestamp w @ ascii ''.png'')"

definition save_error_screenshot :: "browser_world \<Rightarrow> BinancePublisher \<Rightarrow> frame \<Rightarrow> pystr \<times> frame" where
  "save_error_screenshot w self fr =
     (if \<not> page_set fr then ([], fr)
      else (case perform w Error_screenshot fr of
              (Some e, fr1) \<Rightarrow> ([], fr1)
            | (None, fr1) \<Rightarrow> (error_screenshot_path w self, fr1)))"

text \<open>The result dictionary: \<open>status\<close>, \<open>message\<close> and, when present, \<open>screenshot\<close>.\<close>

record publish_result =
  result_status :: pystr
  result_message :: pystr
  result_screenshot :: "pystr option"

text \<open>Lines 75-86: the named profile, else the default profile, else the whole directory.\<close>

definition profile_path :: "browser_world \<Rightarrow> BinancePublisher \<Rightarrow> pystr" where
  "profile_path w self =
     (if path_exists w (path_join w (chrome_user_dir self) (profile_name self))
      then path_join w (chrome_user_dir self) (profile_name self)
      else if path_exists w (path_join w (chrome_user_dir self) (ascii ''Default''))
      then path_join w (chrome_user_dir self) (ascii ''Default'')
      else chrome_user_dir self)"

text \<open>
  The body of the inner \<open>try\<close> (lines 72-202), by the comments that divide it: the
  launch of the browser (\<open>attempt\<close>), then with the browser open (\<open>use_browser\<close>)
  the page and the navigation, the login check, the editor, the content and the submit
  button.
\<close>

definition set_browser :: "frame \<Rightarrow> exn option \<times> frame" where
  "set_browser fr = (None, fr\<lparr>browser_set := True\<rparr>)"

definition set_page :: "frame \<Rightarrow> exn option \<times> frame" where
  "set_page fr = (None, fr\<lparr>page_set := True\<rparr>)"

text \<open>
  \<open>try: wait_for ... except PlaywrightTimeoutError: screenshot; raise\<close>: the handler
  takes a debug screenshot and raises the exception again; any other exception passes.
\<close>

definition on_timeout_screenshot ::
  "browser_world \<Rightarrow> pystr \<Rightarrow> (frame \<Rightarrow> exn option \<times> frame) \<Rightarrow> frame \<Rightarrow> exn option \<times> frame" where
  "on_timeout_screenshot w tag stmt fr =
     (case stmt fr of
        (None, fr1) \<Rightarrow> (None, fr1)
      | (Some e, fr1) \<Rightarrow>
          if exn_class_of e = PlaywrightTimeoutError
          then (Some e, snd (save_debug_screenshot w tag fr1))
          else (Some e, fr1))"

definition stmts :: "(frame \<Rightarrow> exn option \<times> frame) \<Rightarrow> (frame \<Rightarrow> exn option \<times> frame) \<Rightarrow> frame \<Rightarrow> exn option \<times> frame" where
  "stmts s1 s2 fr =
     (case s1 fr of
        (Some e, fr1) \<Rightarrow> (Some e, fr1)
      | (None, fr1) \<Rightarrow> s2 fr1)"

definition wait_for_editor :: "browser_world \<Rightarrow> frame \<Rightarrow> exn option \<times> frame" where
  "wait_for_editor w =
     on_timeout_screenshot w (ascii ''editor_timeout'')
       (stmts (perform w Editor_wait_for) (save_debug_screenshot w (ascii ''editor_found'')))"

definition enter_content :: "browser_world \<Rightarrow> pystr \<Rightarrow> frame \<Rightarrow> exn option \<times> frame" where
  "enter_content w content =
     stmts (perform w Editor_clear)
       (stmts (perform w (Editor_set_innerHTML content))
         (stmts (perform w Editor_click)
           (stmts (perform w Editor_has_text)
             (stmts (if editor_has_text w then Pair None else perform w (Editor_type content))
               (save_debug_screenshot w (ascii ''content_entered''))))))"

definition click_post_button :: "browser_world \<Rightarrow> frame \<Rightarrow> exn option \<times> frame" where
  "click_post_button w =
     on_timeout_screenshot w (ascii ''post_button_timeout'')
       (stmts (perform w Post_button_wait_for)
         (stmts (save_debug_screenshot w (ascii ''before_post_click''))
           (perform w Post_button_click)))"

definition not_logged_in :: publish_result where
  "not_logged_in =
     \<lparr>result_status = ascii ''error'',
      result_message =
        [0x7528, 0x6237, 0x672A, 0x767B, 0x5F55, 0xFF0C, 0x8BF7, 0x5148, 0x5728] @ ascii ''Chrome''
        @ [0x6D4F, 0x89C8, 0x5668, 0x4E2D, 0x767B, 0x5F55, 0x5E01, 0x5B89, 0x8D26, 0x53F7],
      result_screenshot = None\<rparr>"

definition pushed :: publish_result where
  "pushed =
     \<lparr>result_status = ascii ''success'',
      result_message = [0x6210, 0x529F, 0x63A8, 0x9001, 0x5230, 0x5E01, 0x5B89, 0x793E, 0x533A],
      result_screenshot = None\<rparr>"

definition use_browser ::
  "browser_world \<Rightarrow> pystr \<Rightarrow> frame \<Rightarrow> (exn + publish_result) \<times> frame" where
  "use_browser w content =
     and_then (perform w New_page)
    (and_then set_page
    (and_then (perform w (Goto (ascii ''https://www.binance.com/zh-CN/square'')))
    (and_then (save_debug_screenshot w (ascii ''page_loaded''))
    (and_then (perform w Wait_for_load_state)
    (and_then (perform w (Sleep 20))
    (if \<not> check_login_status (loaded_page w)
     then and_then (save_debug_screenshot w (ascii ''not_logged_in''))
            (Pair (Inr not_logged_in))
     else
     and_then (save_debug_screenshot w (ascii ''logged_in''))
    (and_then (wait_for_editor w)
    (and_then (enter_content w content)
    (and_then (click_post_button w)
    (and_then (perform w (Wait_for_timeout 5000))
    (and_then (save_debug_screenshot w (ascii ''post_completed''))
      (Pair (Inr pushed)))))))))))))"

definition attempt ::
  "browser_world \<Rightarrow> BinancePublisher \<Rightarrow> pystr \<Rightarrow> frame \<Rightarrow> (exn + publish_result) \<times> frame" where
  "attempt w self content =
     and_then (perform w (Launch_persistent_context (profile_path w self)))
    (and_then set_browser
    (use_browser w content))"

text \<open>
  The inner \<open>try\<close> with its handlers and its \<open>finally\<close> (lines 71-229): both
  handlers take the error screenshot and return a result; the browser, when it was
  launched, is closed, and what closing raises is swallowed.
\<close>

definition handle_attempt_error ::
  "browser_world \<Rightarrow> BinancePublisher \<Rightarrow> exn \<Rightarrow> frame \<Rightarrow> (exn + publish_result) \<times> frame" where
  "handle_attempt_error w self e fr =
     (case save_error_screenshot w self fr of
        (screenshot_path, fr1) \<Rightarrow>
          (Inr \<lparr>result_status = ascii ''error'',
                result_message =
                  (if exn_class_of e = PlaywrightTimeoutError
                   then [0x9875, 0x9762, 0x5143, 0x7D20, 0x7B49, 0x5F85, 0x8D85, 0x65F6] @ ascii '': ''
                   else [0x63A8, 0x9001, 0x5931, 0x8D25] @ ascii '': '')
                  @ str_exn e,
                result_screenshot = Some screenshot_path\<rparr>,
           fr1))"

definition close_browser :: "browser_world \<Rightarrow> frame \<Rightarrow> frame" where
  "close_browser w fr = (if browser_set fr then snd (perform w Browser_close fr) else fr)"

definition guarded_attempt ::
  "browser_world \<Rightarrow> BinancePublisher \<Rightarrow> pystr \<Rightarrow> frame \<Rightarrow> (exn + publish_result) \<times> frame" where
  "guarded_attempt w self content fr =
     (case (case attempt w self content fr of
              (Inr r, fr1) \<Rightarrow> (Inr r, fr1)
            | (Inl e, fr1) \<Rightarrow> handle_attempt_error w self e fr1) of
        (outcome, fr2) \<Rightarrow> (outcome, close_browser w fr2))"

text \<open>
  \<open>with sync_playwright() as p:\<close> around it: what \<open>__enter__\<close> raises leaves the block
  unentered, and what \<open>__exit__\<close> raises replaces the value being returned.
\<close>

definition with_sync_playwright ::
  "browser_world \<Rightarrow> (frame \<Rightarrow> (exn + 'a) \<times> frame) \<Rightarrow> frame \<Rightarrow> (exn + 'a) \<times> frame" where
  "with_sync_playwright w block fr =
     (case perform w Sync_playwright_enter fr of
        (Some e, fr1) \<Rightarrow> (Inl e, fr1)
      | (None, fr1) \<Rightarrow>
          (case block fr1 of
             (outcome, fr2) \<Rightarrow>
               (case perform w Sync_playwright_exit fr2 of
                  (Some e, fr3) \<Rightarrow> (Inl e, fr3)
                | (None, fr3) \<Rightarrow> (outcome, fr3))))"

text \<open>Lines 58-68: the conflicting browser processes.\<close>

definition resolve_conflict :: "browser_world \<Rightarrow> frame \<Rightarrow> exn option \<times> frame" where
  "resolve_conflict w fr =
     (if is_chrome_running (process_names w)
      then (None, snd (close_all_chrome_instances w fr))
      else (None, fr))"

text \<open>
  \<open>push_to_binance\<close> (lines 47-236). The content is pre-processed before the outer
  \<open>try\<close> is entered; the outer handler turns every exception raised inside it into a
  result without a screenshot. The function returns its result, or the exception that
  reaches its caller, and the operations it performed.
\<close>

definition push_to_binance ::
  "browser_world \<Rightarrow> BinancePublisher \<Rightarrow> pyval \<Rightarrow> (exn + publish_result) \<times> op list" where
  "push_to_binance w self content0 =
     (case preprocess_content (b_runtime w) content0 of
        Inl e \<Rightarrow> (Inl e, [])
      | Inr content \<Rightarrow>
          (case and_then (resolve_conflict w)
                  (with_sync_playwright w (guarded_attempt w self content))
                  \<lparr>browser_set = False, page_set = False, trace = []\<rparr> of
             (Inr r, fr) \<Rightarrow> (Inr r, trace fr)
           | (Inl e, fr) \<Rightarrow>
               (Inr \<lparr>result_status = ascii ''error'',
                     result_message =
                       [0x8FDE, 0x63A5, 0x6D4F, 0x89C8, 0x5668, 0x5931, 0x8D25] @ ascii '': ''
                       @ str_exn e,
                     result_screenshot = None\<rparr>,
                trace fr)))"

text \<open>
  A world to evaluate on: nothing raises, no browser is running, the page is the one
  given; and a publisher as \<open>__init__\<close> leaves it on Linux.
\<close>

definition browser_sample :: "(op \<Rightarrow> exn option) \<Rightarrow> page \<Rightarrow> browser_world" where
  "browser_sample r p =
     \<lparr>b_runtime = rt_default,
      raises = r,
      process_names = Inr [Some (ascii ''bash'')],
      process_names_after = Inr [Some (ascii ''bash'')],
      platform_system = ascii ''Linux'',
      path_exists = (\<lambda>f. False),
      path_join = (\<lambda>a b. a @ ascii ''/'' @ b),
      timestamp = ascii ''20250101_000000'',
      loaded_page = p,
      editor_has_text = True\<rparr>"

definition publisher_sample :: BinancePublisher where
  "publisher_sample =
     \<lparr>data_path = ascii ''./data'',
      chrome_user_dir = ascii ''/home/u/.config/google-chrome'',
      profile_name = ascii ''Default''\<rparr>"

subsection \<open>An invariant of the publish attempt\<close>

text \<open>
  Once the browser is launched the variable \<open>browser\<close> stays set and the trace only
  grows; \<open>keeps\<close> says that a piece of the program maintains this.
\<close>

definition browser_kept :: "op list \<Rightarrow> frame \<Rightarrow> bool" where
  "browser_kept t fr = (browser_set fr \<and> prefix t (trace fr))"

definition keeps :: "op list \<Rightarrow> (frame \<Rightarrow> 'x \<times> frame) \<Rightarrow> bool" where
  "keeps t prog = (\<forall>fr. browser_kept t fr \<longrightarrow> browser_kept t (snd (prog fr)))"

section \<open>Properties of the normalisers\<close>



lemma unescape_Nil: "unescape rt [] = Inr []"
  by (simp add: unescape_def)

lemma preprocess_content_str:
  "preprocess_content rt (PyStr s) =
     (case unescape rt s of Inl e \<Rightarrow> Inl e | Inr u \<Rightarrow> Inr (strip_control u))"
  by (cases s) (simp_all add: preprocess_content_def unescape_Nil strip_control_def)

lemma preprocess_article_str:
  "preprocess_article rt (PyStr s) =
     (case unescape rt s of Inl e \<Rightarrow> Inl e | Inr u \<Rightarrow> Inr (strip_control u))"
  by (cases s)
     (simp_all add: preprocess_article_def check_utf8_def encode_utf8_exn_def
        repair_encoding_def is_UnicodeError_def unescape_Nil strip_control_def)

lemma preprocess_content_bytes:
  "b \<noteq> [] \<Longrightarrow> preprocess_content rt (PyBytes b) =
     (case unescape rt (bytes_repr b) of Inl e \<Rightarrow> Inl e | Inr u \<Rightarrow> Inr (strip_control u))"
  by (simp add: preprocess_content_def)

lemma preprocess_article_bytes:
  "b \<noteq> [] \<Longrightarrow> preprocess_article rt (PyBytes b) =
     (case unescape rt (bytes_repr b) of Inl e \<Rightarrow> Inl e | Inr u \<Rightarrow> Inr (strip_control u))"
  by (simp add: preprocess_article_def check_utf8_def encode_utf8_exn_def
        repair_encoding_def is_UnicodeError_def)

lemma repr_zhong: "bytes_repr [0xE4, 0xB8, 0xAD] = [98, 39, 92, 120, 101, 52, 92, 120, 98, 56, 92, 120, 97, 100, 39]"
  by (simp add: bytes_repr_def repr_byte_def hexdigit_def)

text \<open>
  Claim C6 says that bytes are decoded, UTF-8 first and then the legacy encodings, and that
  the result is never the \<open>repr\<close> of the bytes object. Both normalisers turn every value
  that is not a \<open>str\<close> into \<open>str(value)\<close> before they look for bytes, so the decoding
  branches are never entered: on the three octets that encode U+4E2D in UTF-8 both return
  the fifteen characters \<open>b'\xe4\xb8\xad'\<close>, whatever the codecs are. The code departs from the
  claim here.
\<close>

theorem preprocess_bytes_is_repr:
  "preprocess_content rt (PyBytes [0xE4, 0xB8, 0xAD])
     = Inr [98, 39, 92, 120, 101, 52, 92, 120, 98, 56, 92, 120, 97, 100, 39]
   \<and> preprocess_article rt (PyBytes [0xE4, 0xB8, 0xAD])
     = Inr [98, 39, 92, 120, 101, 52, 92, 120, 98, 56, 92, 120, 97, 100, 39]"
  by (simp add: preprocess_content_bytes preprocess_article_bytes repr_zhong
        unescape_def strip_control_def)










text \<open>
  Outside plain text the normalisers are not idempotent: a reference to an ampersand
  that starts another reference is un-escaped once more by a second pass.
\<close>

lemma normalize_twice_on_references:
  "preprocess_content rt_default (PyStr (ascii ''&amp;amp;'')) = Inr (ascii ''&amp;'')
   \<and> preprocess_content rt_default (PyStr (ascii ''&amp;'')) = Inr (ascii ''&'')"
proof -
  have a: "unescape rt_default (ascii ''&amp;amp;'') = Inr (ascii ''&amp;'')"
    by (simp add: ascii_def unescape_def match_charref_def match_decimal_def match_hex_def
          match_name_def is_name_char_def opt_semicolon_def replace_charref_def rt_default_def)
  have b: "unescape rt_default (ascii ''&amp;'') = Inr (ascii ''&'')"
    by (simp add: ascii_def unescape_def match_charref_def match_decimal_def match_hex_def
          match_name_def is_name_char_def opt_semicolon_def replace_charref_def rt_default_def)
  show ?thesis
    unfolding preprocess_content_str a b by (simp add: strip_control_def ascii_def)
qed

section \<open>Properties of the API publish engine\<close>



lemma ensure_cached:
  "ensure_access_token (wx_sample h) publisher_cached
     = (Inr (JStr (ascii ''T0'')), publisher_cached, [])"
  by (simp add: ensure_access_token_def token_is_fresh_def publisher_cached_def wx_sample_def
        timedelta_minutes_def)



lemma http_sample: "http (wx_sample h) req = h req"
  by (simp add: wx_sample_def)





lemma upload_draft_response_Inr:
  "upload_draft_response r = Inr h \<Longrightarrow>
     ascii ''errcode'' \<notin> dom r \<and> r (ascii ''media_id'') = Some (media_id h)"
  by (auto simp: upload_draft_response_def dict_item_def split: if_splits option.splits sum.splits)

lemma upload_draft_response_errcode:
  "ascii ''errcode'' \<in> dom r \<Longrightarrow> isl (upload_draft_response r)"
  by (auto simp: upload_draft_response_def dict_item_def split: option.splits)

lemma upload_draft_trace:
  "upload_draft w self art ttl dig mid = (res, self', tr) \<Longrightarrow>
     (\<exists>tok arts. tr \<noteq> [] \<and> last tr = POST (draft_url tok) (Articles arts)) \<Longrightarrow>
     (case post_json w (last tr) of Inl e \<Rightarrow> res = Inl e | Inr r \<Rightarrow> res = upload_draft_response r)"
  unfolding upload_draft_def Let_def
  by (auto simp: ensure_access_token_def fetch_access_token_def Let_def
        split: prod.splits sum.splits if_splits option.splits)

lemma upload_draft_Inr:
  "upload_draft w self art ttl dig mid = (Inr h, self', tr) \<Longrightarrow>
     \<exists>r. tr \<noteq> [] \<and> post_json w (last tr) = Inr r \<and> upload_draft_response r = Inr h"
  unfolding upload_draft_def Let_def
  by (auto split: prod.splits sum.splits if_splits)

text \<open>
  Claim C9: \<open>upload_draft\<close> raises on every response that holds the key \<open>errcode\<close>,
  also when its value is 0, and returns a media id only when the response holds no such
  key; \<open>direct_publish\<close> accepts the same response with \<open>errcode\<close> 0.
\<close>

theorem upload_draft_errcode_key:
  "(ascii ''errcode'' \<in> dom r \<longrightarrow> isl (upload_draft_response r))
   \<and> (upload_draft_response r = Inr h \<longrightarrow>
        ascii ''errcode'' \<notin> dom r \<and> r (ascii ''media_id'') = Some (media_id h))
   \<and> (upload_draft w self art ttl dig mid = (res, self', tr)
        \<and> tr \<noteq> [] \<and> last tr = POST (draft_url tok) (Articles arts)
        \<and> post_json w (last tr) = Inr r \<and> ascii ''errcode'' \<in> dom r \<longrightarrow> isl res)
   \<and> (upload_draft w self art ttl dig mid = (Inr h, self', tr) \<longrightarrow>
        (\<exists>r'. tr \<noteq> [] \<and> post_json w (last tr) = Inr r' \<and> ascii ''errcode'' \<notin> dom r'
              \<and> r' (ascii ''media_id'') = Some (media_id h)))
   \<and> isl (upload_draft_response
            (map_of [(ascii ''errcode'', JInt 0), (ascii ''errmsg'', JStr (ascii ''ok'')),
                     (ascii ''media_id'', JStr (ascii ''M1''))]))
   \<and> \<not> isl (direct_publish_response
            (map_of [(ascii ''errcode'', JInt 0), (ascii ''errmsg'', JStr (ascii ''ok'')),
                     (ascii ''media_id'', JStr (ascii ''M1''))]))"
proof (intro conjI impI)
  assume "ascii ''errcode'' \<in> dom r"
  then show "isl (upload_draft_response r)" by (rule upload_draft_response_errcode)
next
  assume "upload_draft_response r = Inr h"
  then show "ascii ''errcode'' \<notin> dom r" by (simp add: upload_draft_response_Inr)
next
  assume "upload_draft_response r = Inr h"
  then show "r (ascii ''media_id'') = Some (media_id h)" by (simp add: upload_draft_response_Inr)
next
  assume a: "upload_draft w self art ttl dig mid = (res, self', tr)
        \<and> tr \<noteq> [] \<and> last tr = POST (draft_url tok) (Articles arts)
        \<and> post_json w (last tr) = Inr r \<and> ascii ''errcode'' \<in> dom r"
  then have e: "\<exists>tok arts. tr \<noteq> [] \<and> last tr = POST (draft_url tok) (Articles arts)" by blast
  from a have u: "upload_draft w self art ttl dig mid = (res, self', tr)" by blast
  from a have p: "post_json w (last tr) = Inr r" by blast
  from upload_draft_trace [OF u e] have "res = upload_draft_response r"
    unfolding p by simp
  with a show "isl res" by (simp add: upload_draft_response_errcode)
next
  assume a: "upload_draft w self art ttl dig mid = (Inr h, self', tr)"
  from upload_draft_Inr [OF a] obtain r' where
    r': "tr \<noteq> []" "post_json w (last tr) = Inr r'" "upload_draft_response r' = Inr h"
    by blast
  with upload_draft_response_Inr [OF r'(3)]
  show "\<exists>r'. tr \<noteq> [] \<and> post_json w (last tr) = Inr r' \<and> ascii ''errcode'' \<notin> dom r'
              \<and> r' (ascii ''media_id'') = Some (media_id h)"
    by blast
next
  show "isl (upload_draft_response
            (map_of [(ascii ''errcode'', JInt 0), (ascii ''errmsg'', JStr (ascii ''ok'')),
                     (ascii ''media_id'', JStr (ascii ''M1''))]))"
    by (rule upload_draft_response_errcode) simp
next
  show "\<not> isl (direct_publish_response
            (map_of [(ascii ''errcode'', JInt 0), (ascii ''errmsg'', JStr (ascii ''ok'')),
                     (ascii ''media_id'', JStr (ascii ''M1''))]))"
    by (simp add: direct_publish_response_def dict_get_def py_eq_int_def)
qed


theorem upload_draft_errcode_key_witness:
  "upload_draft
     (wx_sample (\<lambda>req. Inr (utf8_response
        [(ascii ''errcode'', JInt 0), (ascii ''errmsg'', JStr (ascii ''ok'')),
         (ascii ''media_id'', JStr (ascii ''M1''))])))
     publisher_cached (PyStr (ascii ''text'')) (PyStr (ascii ''T'')) (PyStr (ascii ''D''))
     (JStr (ascii ''m0''))
   = (Inl (Exn Exception
        ([0x4E0A, 0x4F20, 0x8349, 0x7A3F, 0x5931, 0x8D25] @ ascii '': ok'')),
      publisher_cached,
      [POST (draft_url (JStr (ascii ''T0'')))
         (Articles [\<lparr>article_title = PyStr (ascii ''T''), article_author = ascii ''x'',
                     article_digest = PyStr (ascii ''D''), article_content = ascii ''text'',
                     thumb_media_id = JStr (ascii ''m0''),
                     need_open_comment = 0, only_fans_can_comment = 0\<rparr>])])
   \<and> upload_draft
     (wx_sample (\<lambda>req. Inr (utf8_response [(ascii ''media_id'', JStr (ascii ''M1''))])))
     publisher_cached (PyStr (ascii ''text'')) (PyStr (ascii ''T'')) (PyStr (ascii ''D''))
     (JStr (ascii ''m0''))
   = (Inr \<lparr>media_id = JStr (ascii ''M1'')\<rparr>,
      publisher_cached,
      [POST (draft_url (JStr (ascii ''T0'')))
         (Articles [\<lparr>article_title = PyStr (ascii ''T''), article_author = ascii ''x'',
                     article_digest = PyStr (ascii ''D''), article_content = ascii ''text'',
                     thumb_media_id = JStr (ascii ''m0''),
                     need_open_comment = 0, only_fans_can_comment = 0\<rparr>])])
   \<and> (\<exists>r'. post_json
          (wx_sample (\<lambda>req. Inr (utf8_response [(ascii ''media_id'', JStr (ascii ''M1''))])))
          (POST (draft_url (JStr (ascii ''T0'')))
             (Articles [\<lparr>article_title = PyStr (ascii ''T''), article_author = ascii ''x'',
                     article_digest = PyStr (ascii ''D''), article_content = ascii ''text'',
                     thumb_media_id = JStr (ascii ''m0''),
                     need_open_comment = 0, only_fans_can_comment = 0\<rparr>])) = Inr r'
        \<and> ascii ''errcode'' \<notin> dom r')"
proof -
  let ?kv1 = "[(ascii ''errcode'', JInt 0), (ascii ''errmsg'', JStr (ascii ''ok'')),
         (ascii ''media_id'', JStr (ascii ''M1''))]"
  let ?kv2 = "[(ascii ''media_id'', JStr (ascii ''M1''))]"
  let ?w1 = "wx_sample (\<lambda>req. Inr (utf8_response ?kv1))"
  let ?w2 = "wx_sample (\<lambda>req. Inr (utf8_response ?kv2))"
  let ?req = "POST (draft_url (JStr (ascii ''T0'')))
         (Articles [\<lparr>article_title = PyStr (ascii ''T''), article_author = ascii ''x'',
                     article_digest = PyStr (ascii ''D''), article_content = ascii ''text'',
                     thumb_media_id = JStr (ascii ''m0''),
                     need_open_comment = 0, only_fans_can_comment = 0\<rparr>])"
  have pa: "preprocess_article rt_default (PyStr (ascii ''text'')) = Inr (ascii ''text'')"
    "preprocess_article rt_default (PyStr (ascii ''T'')) = Inr (ascii ''T'')"
    "preprocess_article rt_default (PyStr (ascii ''D'')) = Inr (ascii ''D'')"
    by (simp_all add: preprocess_article_str unescape_def strip_control_def ascii_def)
  have ne: "ascii ''text'' \<noteq> []" "ascii ''T'' \<noteq> []" "ascii ''D'' \<noteq> []"
    by (simp_all add: ascii_def)
  have fl: "\<And>h k. flag (wx_sample h) k = 0" "\<And>h k. getenv (wx_sample h) k = ascii ''x''"
    by (simp_all add: flag_def wx_sample_def ascii_def)
  have p1: "post_json ?w1 ?req = Inr (map_of ?kv1)"
    by (simp add: post_json_def wx_sample_def utf8_response_def)
  have p2: "post_json ?w2 ?req = Inr (map_of ?kv2)"
    by (simp add: post_json_def wx_sample_def utf8_response_def)
  have rt: "\<And>h. runtime (wx_sample h) = rt_default"
    "\<And>h. md_template (wx_sample h) = (\<lambda>a t. Inr a)"
    by (simp_all add: wx_sample_def)
  have u1: "upload_draft ?w1 publisher_cached (PyStr (ascii ''text'')) (PyStr (ascii ''T''))
      (PyStr (ascii ''D'')) (JStr (ascii ''m0''))
      = (upload_draft_response (map_of ?kv1), publisher_cached, [?req])"
    by (simp add: upload_draft_def ensure_cached rt pa preprocess_field_def ne fl p1)
  have u2: "upload_draft ?w2 publisher_cached (PyStr (ascii ''text'')) (PyStr (ascii ''T''))
      (PyStr (ascii ''D'')) (JStr (ascii ''m0''))
      = (upload_draft_response (map_of ?kv2), publisher_cached, [?req])"
    by (simp add: upload_draft_def ensure_cached rt pa preprocess_field_def ne fl p2)
  have d1: "upload_draft_response (map_of ?kv1) = Inl (Exn Exception
        ([0x4E0A, 0x4F20, 0x8349, 0x7A3F, 0x5931, 0x8D25] @ ascii '': ok''))"
    by (simp add: upload_draft_response_def dict_item_def) (simp add: ascii_def)
  have d2: "upload_draft_response (map_of ?kv2) = Inr \<lparr>media_id = JStr (ascii ''M1'')\<rparr>"
    by (simp add: upload_draft_response_def dict_item_def) (simp add: ascii_def)
  have "upload_draft ?w2 publisher_cached (PyStr (ascii ''text'')) (PyStr (ascii ''T''))
      (PyStr (ascii ''D'')) (JStr (ascii ''m0''))
      = (Inr \<lparr>media_id = JStr (ascii ''M1'')\<rparr>, publisher_cached, [?req]) \<longrightarrow>
    (\<exists>r'. [?req] \<noteq> [] \<and> post_json ?w2 (last [?req]) = Inr r' \<and> ascii ''errcode'' \<notin> dom r'
          \<and> r' (ascii ''media_id'') = Some (media_id \<lparr>media_id = JStr (ascii ''M1'')\<rparr>))"
    using upload_draft_errcode_key [where w = ?w2 and self = publisher_cached
      and art = "PyStr (ascii ''text'')" and ttl = "PyStr (ascii ''T'')"
      and dig = "PyStr (ascii ''D'')" and mid = "JStr (ascii ''m0'')"
      and h = "\<lparr>media_id = JStr (ascii ''M1'')\<rparr>" and self' = publisher_cached
      and tr = "[?req]" and r = "Map.empty" and res = "Inl (Exn KeyError [])"
      and tok = JNull and arts = "[]"]
    by (elim conjE)
  with u2 [unfolded d2]
  have e: "\<exists>r'. post_json ?w2 ?req = Inr r' \<and> ascii ''errcode'' \<notin> dom r'"
    by auto
  show ?thesis
    unfolding u1 u2 d1 d2 using e by simp
qed

lemma ensure_fresh:
  "self_access_token self = Some t \<Longrightarrow> expires_at t > now w + timedelta_minutes 1 \<Longrightarrow>
     ensure_access_token w self = (Inr (access_token t), self, [])"
  by (simp add: ensure_access_token_def token_is_fresh_def)

lemma ensure_miss:
  "\<not> token_is_fresh w self \<Longrightarrow> ensure_access_token w self = fetch_access_token w self"
  by (simp add: ensure_access_token_def)

lemma fetch_trace:
  "\<exists>res self'. fetch_access_token w self = (res, self', [GET (token_url (refresh w self))])
      \<and> (isl res \<longrightarrow> self_access_token self' = self_access_token self)"
  by (auto simp: fetch_access_token_def Let_def refresh_def split: sum.splits)

lemma token_of_response_Inr:
  "token_of_response w r = Inr t \<Longrightarrow>
     \<exists>x n. r (ascii ''access_token'') = Some (access_token t) \<and> r (ascii ''expires_in'') = Some x
        \<and> as_int x = Some n
        \<and> t = \<lparr>access_token = access_token t, expires_in = x,
                expires_at = now_init w + n * 1000000\<rparr>"
  by (auto simp: token_of_response_def dict_item_def WeixinToken_init_def
        split: if_splits option.splits sum.splits)

lemma fetch_Inr:
  "fetch_access_token w self = (Inr v, self', tr) \<Longrightarrow>
     \<exists>resp r t. http w (GET (token_url (refresh w self))) = Inr resp \<and> resp_json resp = Inr r
        \<and> token_of_response w r = Inr t \<and> access_token t = v
        \<and> self' = (refresh w self)\<lparr>self_access_token := Some t\<rparr>"
  by (auto simp: fetch_access_token_def Let_def split: sum.splits)

lemma fetch_ok:
  "http w (GET (token_url (refresh w self))) = Inr resp \<Longrightarrow> resp_json resp = Inr r \<Longrightarrow>
   token_of_response w r = Inr t \<Longrightarrow>
     fetch_access_token w self
       = (Inr (access_token t), (refresh w self)\<lparr>self_access_token := Some t\<rparr>,
          [GET (token_url (refresh w self))])"
  by (simp add: fetch_access_token_def Let_def)

lemma token_of_response_ok:
  "r (ascii ''access_token'') = Some v \<Longrightarrow> r (ascii ''expires_in'') = Some x \<Longrightarrow>
   as_int x = Some n \<Longrightarrow> \<bar>n div 86400\<bar> \<le> 999999999 \<Longrightarrow>
   0 \<le> now_init w + n * 1000000 \<Longrightarrow> now_init w + n * 1000000 \<le> datetime_max \<Longrightarrow>
     token_of_response w r
       = Inr \<lparr>access_token = v, expires_in = x, expires_at = now_init w + n * 1000000\<rparr>"
  by (auto simp: token_of_response_def dict_item_def WeixinToken_init_def dom_def)

text \<open>
  Claim C1, as amended. With a cached token that expires more than one minute after the
  current time, \<open>ensure_access_token\<close> sends nothing and returns the cached value, the
  publisher unchanged. Otherwise it sends exactly one request, the credential exchange
  with the token endpoint. When it then returns a value, that value is the
  \<open>access_token\<close> of the answer and the cache holds it with
  \<open>expires_at = now + expires_in\<close>, the clock being read when the token is built; when
  it raises, the cache is as it was. It returns exactly when the answer is a JSON object
  with an \<open>access_token\<close> and an \<open>expires_in\<close> that is a number of seconds
  \<open>datetime\<close> can add to the clock.
\<close>

theorem ensure_access_token_cases:
  "(self_access_token self = Some t \<and> expires_at t > now w + timedelta_minutes 1 \<longrightarrow>
      ensure_access_token w self = (Inr (access_token t), self, []))
   \<and> (\<not> token_is_fresh w self \<longrightarrow>
        (\<exists>res self'. ensure_access_token w self = (res, self', [GET (token_url (refresh w self))])
           \<and> (isl res \<longrightarrow> self_access_token self' = self_access_token self)
           \<and> (\<forall>v. res = Inr v \<longrightarrow>
                (\<exists>resp r x n. http w (GET (token_url (refresh w self))) = Inr resp
                   \<and> resp_json resp = Inr r
                   \<and> r (ascii ''access_token'') = Some v \<and> r (ascii ''expires_in'') = Some x
                   \<and> as_int x = Some n
                   \<and> self_access_token self'
                       = Some \<lparr>access_token = v, expires_in = x,
                               expires_at = now_init w + n * 1000000\<rparr>))))
   \<and> (\<not> token_is_fresh w self \<and> http w (GET (token_url (refresh w self))) = Inr resp
        \<and> resp_json resp = Inr r
        \<and> r (ascii ''access_token'') = Some v \<and> r (ascii ''expires_in'') = Some x
        \<and> as_int x = Some n \<and> \<bar>n div 86400\<bar> \<le> 999999999
        \<and> 0 \<le> now_init w + n * 1000000 \<and> now_init w + n * 1000000 \<le> datetime_max \<longrightarrow>
        ensure_access_token w self
          = (Inr v,
             (refresh w self)\<lparr>self_access_token :=
                Some \<lparr>access_token = v, expires_in = x,
                      expires_at = now_init w + n * 1000000\<rparr>\<rparr>,
             [GET (token_url (refresh w self))]))"
proof (intro conjI impI)
  assume "self_access_token self = Some t \<and> expires_at t > now w + timedelta_minutes 1"
  then show "ensure_access_token w self = (Inr (access_token t), self, [])"
    by (simp add: ensure_fresh)
next
  assume m: "\<not> token_is_fresh w self"
  from fetch_trace [of w self] obtain res self' where
    f: "fetch_access_token w self = (res, self', [GET (token_url (refresh w self))])"
    and c: "isl res \<longrightarrow> self_access_token self' = self_access_token self"
    by blast
  have s: "\<forall>v. res = Inr v \<longrightarrow>
                (\<exists>resp r x n. http w (GET (token_url (refresh w self))) = Inr resp
                   \<and> resp_json resp = Inr r
                   \<and> r (ascii ''access_token'') = Some v \<and> r (ascii ''expires_in'') = Some x
                   \<and> as_int x = Some n
                   \<and> self_access_token self'
                       = Some \<lparr>access_token = v, expires_in = x,
                               expires_at = now_init w + n * 1000000\<rparr>)"
  proof (intro allI impI)
    fix v assume "res = Inr v"
    with f have "fetch_access_token w self = (Inr v, self', [GET (token_url (refresh w self))])"
      by simp
    from fetch_Inr [OF this] obtain resp r t where
      h: "http w (GET (token_url (refresh w self))) = Inr resp" "resp_json resp = Inr r"
        "token_of_response w r = Inr t" "access_token t = v"
        "self' = (refresh w self)\<lparr>self_access_token := Some t\<rparr>"
      by blast
    from token_of_response_Inr [OF h(3)] obtain x n where
      k: "r (ascii ''access_token'') = Some (access_token t)" "r (ascii ''expires_in'') = Some x"
        "as_int x = Some n"
        "t = \<lparr>access_token = access_token t, expires_in = x,
              expires_at = now_init w + n * 1000000\<rparr>"
      by blast
    from h k have "self_access_token self'
        = Some \<lparr>access_token = v, expires_in = x, expires_at = now_init w + n * 1000000\<rparr>"
      by simp
    with h k show "\<exists>resp r x n. http w (GET (token_url (refresh w self))) = Inr resp
                   \<and> resp_json resp = Inr r
                   \<and> r (ascii ''access_token'') = Some v \<and> r (ascii ''expires_in'') = Some x
                   \<and> as_int x = Some n
                   \<and> self_access_token self'
                       = Some \<lparr>access_token = v, expires_in = x,
                               expires_at = now_init w + n * 1000000\<rparr>"
      by blast
  qed
  from m f c s
  show "\<exists>res self'. ensure_access_token w self = (res, self', [GET (token_url (refresh w self))])
           \<and> (isl res \<longrightarrow> self_access_token self' = self_access_token self)
           \<and> (\<forall>v. res = Inr v \<longrightarrow>
                (\<exists>resp r x n. http w (GET (token_url (refresh w self))) = Inr resp
                   \<and> resp_json resp = Inr r
                   \<and> r (ascii ''access_token'') = Some v \<and> r (ascii ''expires_in'') = Some x
                   \<and> as_int x = Some n
                   \<and> self_access_token self'
                       = Some \<lparr>access_token = v, expires_in = x,
                               expires_at = now_init w + n * 1000000\<rparr>))"
    unfolding ensure_miss [OF m] by blast
next
  assume a: "\<not> token_is_fresh w self \<and> http w (GET (token_url (refresh w self))) = Inr resp
        \<and> resp_json resp = Inr r
        \<and> r (ascii ''access_token'') = Some v \<and> r (ascii ''expires_in'') = Some x
        \<and> as_int x = Some n \<and> \<bar>n div 86400\<bar> \<le> 999999999
        \<and> 0 \<le> now_init w + n * 1000000 \<and> now_init w + n * 1000000 \<le> datetime_max"
  then have t: "token_of_response w r
       = Inr \<lparr>access_token = v, expires_in = x, expires_at = now_init w + n * 1000000\<rparr>"
    by (simp add: token_of_response_ok)
  from a have "fetch_access_token w self
       = (Inr (access_token \<lparr>access_token = v, expires_in = x,
                              expires_at = now_init w + n * 1000000\<rparr>),
          (refresh w self)\<lparr>self_access_token :=
             Some \<lparr>access_token = v, expires_in = x,
                   expires_at = now_init w + n * 1000000\<rparr>\<rparr>,
          [GET (token_url (refresh w self))])"
    using fetch_ok [OF _ _ t] by blast
  with a show "ensure_access_token w self
          = (Inr v,
             (refresh w self)\<lparr>self_access_token :=
                Some \<lparr>access_token = v, expires_in = x,
                      expires_at = now_init w + n * 1000000\<rparr>\<rparr>,
             [GET (token_url (refresh w self))])"
    by (simp add: ensure_miss)
qed

theorem ensure_access_token_cases_witness:
  "ensure_access_token (wx_sample (\<lambda>req. Inl (Exn LibraryError []))) publisher_cached
     = (Inr (JStr (ascii ''T0'')), publisher_cached, [])
   \<and> \<not> token_is_fresh
       (wx_sample (\<lambda>req. Inr (utf8_response
          [(ascii ''access_token'', JStr (ascii ''T1'')), (ascii ''expires_in'', JInt 7200)])))
       publisher_stale
   \<and> ensure_access_token
       (wx_sample (\<lambda>req. Inr (utf8_response
          [(ascii ''access_token'', JStr (ascii ''T1'')), (ascii ''expires_in'', JInt 7200)])))
       publisher_stale
     = (Inr (JStr (ascii ''T1'')),
        \<lparr>self_access_token =
           Some \<lparr>access_token = JStr (ascii ''T1''), expires_in = JInt 7200,
                 expires_at = 63900007200000001\<rparr>,
         app_id = Some (ascii ''x''), app_secret = Some (ascii ''x'')\<rparr>,
        [GET (ascii ''https://api.weixin.qq.com/cgi-bin/token?grant_type=client_credential&appid=x&secret=x'')])"
proof -
  let ?w0 = "wx_sample (\<lambda>req. Inl (Exn LibraryError []))"
  let ?kv = "[(ascii ''access_token'', JStr (ascii ''T1'')), (ascii ''expires_in'', JInt 7200)]"
  let ?w1 = "wx_sample (\<lambda>req. Inr (utf8_response ?kv))"
  obtain t where t: "self_access_token publisher_cached = Some t"
      "t = \<lparr>access_token = JStr (ascii ''T0''), expires_in = JInt 7200,
              expires_at = 63900007200000000\<rparr>"
    by (simp add: publisher_cached_def)
  have f: "expires_at t > now ?w0 + timedelta_minutes 1"
    by (simp add: t wx_sample_def timedelta_minutes_def)
  from ensure_access_token_cases [where self = publisher_cached and t = t and w = ?w0
      and resp = "utf8_response []" and r = Map.empty and v = JNull and x = JNull and n = 0]
    t f
  have a: "ensure_access_token ?w0 publisher_cached = (Inr (JStr (ascii ''T0'')), publisher_cached, [])"
    by simp
  have m: "\<not> token_is_fresh ?w1 publisher_stale"
    by (simp add: token_is_fresh_def publisher_stale_def wx_sample_def timedelta_minutes_def)
  have h: "http ?w1 (GET (token_url (refresh ?w1 publisher_stale))) = Inr (utf8_response ?kv)"
    "resp_json (utf8_response ?kv) = Inr (map_of ?kv)"
    "now_init ?w1 = 63900000000000001"
    by (simp_all add: wx_sample_def utf8_response_def)
  have k: "map_of ?kv (ascii ''access_token'') = Some (JStr (ascii ''T1''))"
    "map_of ?kv (ascii ''expires_in'') = Some (JInt 7200)"
    by (simp_all add: ascii_def)
  have g: "as_int (JInt 7200) = Some 7200" "\<bar>(7200::int) div 86400\<bar> \<le> 999999999"
    "0 \<le> now_init ?w1 + 7200 * 1000000" "now_init ?w1 + 7200 * 1000000 \<le> datetime_max"
    by (simp_all add: h datetime_max_def)
  from ensure_access_token_cases [where self = publisher_stale and t = t and w = ?w1
      and resp = "utf8_response ?kv" and r = "map_of ?kv" and v = "JStr (ascii ''T1'')"
      and x = "JInt 7200" and n = 7200]
    m h(1,2) k g
  have b: "ensure_access_token ?w1 publisher_stale
          = (Inr (JStr (ascii ''T1'')),
             (refresh ?w1 publisher_stale)\<lparr>self_access_token :=
                Some \<lparr>access_token = JStr (ascii ''T1''), expires_in = JInt 7200,
                      expires_at = now_init ?w1 + 7200 * 1000000\<rparr>\<rparr>,
             [GET (token_url (refresh ?w1 publisher_stale))])"
    by blast
  have r: "refresh ?w1 publisher_stale
      = publisher_stale\<lparr>app_id := Some (ascii ''x''), app_secret := Some (ascii ''x'')\<rparr>"
    by (simp add: refresh_def wx_sample_def)
  have u: "token_url (publisher_stale\<lparr>app_id := Some (ascii ''x''), app_secret := Some (ascii ''x'')\<rparr>)
      = ascii ''https://api.weixin.qq.com/cgi-bin/token?grant_type=client_credential&appid=x&secret=x''"
    by (simp add: token_url_def ascii_def)
  show ?thesis
    unfolding a b r u h(3) using m by (simp add: publisher_stale_def)
qed

lemma fetch_sample_error:
  "fetch_access_token
     (wx_sample (\<lambda>req. Inr (utf8_response
        [(ascii ''errcode'', JInt 40164), (ascii ''errmsg'', JStr (ascii ''invalid ip''))])))
     publisher_new
   = (Inl (Exn Exception
        ([0x83B7, 0x53D6] @ ascii ''access_token'' @ [0x5931, 0x8D25] @ ascii '': {}'')),
      refresh (wx_sample (\<lambda>req. Inr (utf8_response
        [(ascii ''errcode'', JInt 40164), (ascii ''errmsg'', JStr (ascii ''invalid ip''))])))
        publisher_new,
      [GET (token_url (refresh (wx_sample (\<lambda>req. Inr (utf8_response
        [(ascii ''errcode'', JInt 40164), (ascii ''errmsg'', JStr (ascii ''invalid ip''))])))
        publisher_new))])"
  unfolding fetch_access_token_def Let_def token_of_response_def
  by (simp add: wx_sample_def utf8_response_def ascii_def)

text \<open>
  Claim C1 as stated fails when the token endpoint answers with an error object: with an
  empty cache the call sends its one request, then raises instead of returning a new
  value, and the cache stays empty.
\<close>

theorem ensure_access_token_counterexample:
  "\<not> token_is_fresh
       (wx_sample (\<lambda>req. Inr (utf8_response
          [(ascii ''errcode'', JInt 40164), (ascii ''errmsg'', JStr (ascii ''invalid ip''))])))
       publisher_new
   \<and> isl (fst (ensure_access_token
       (wx_sample (\<lambda>req. Inr (utf8_response
          [(ascii ''errcode'', JInt 40164), (ascii ''errmsg'', JStr (ascii ''invalid ip''))])))
       publisher_new))
   \<and> self_access_token (fst (snd (ensure_access_token
       (wx_sample (\<lambda>req. Inr (utf8_response
          [(ascii ''errcode'', JInt 40164), (ascii ''errmsg'', JStr (ascii ''invalid ip''))])))
       publisher_new))) = None"
proof -
  have m: "\<not> token_is_fresh
       (wx_sample (\<lambda>req. Inr (utf8_response
          [(ascii ''errcode'', JInt 40164), (ascii ''errmsg'', JStr (ascii ''invalid ip''))])))
       publisher_new"
    by (simp add: token_is_fresh_def publisher_new_def)
  show ?thesis
    unfolding ensure_miss [OF m] fetch_sample_error using m
    by (simp add: refresh_def publisher_new_def)
qed

lemma upload_image_fetch:
  "u \<noteq> [] \<Longrightarrow> http w (GET u) = Inr img \<Longrightarrow> ensure_access_token w self = (tres, selfT, tr) \<Longrightarrow>
     \<exists>res. upload_image w self (Some u)
        = (res, selfT,
           GET u # tr @ (case tres of
                           Inl e \<Rightarrow> []
                         | Inr token \<Rightarrow> [POST (material_url token) (Files (resp_content img))]))
        \<and> (isl tres \<longrightarrow> isl res)"
  by (cases tres) (auto simp: upload_image_def Let_def split: sum.splits)

lemma upload_image_no_fetch:
  "u \<noteq> [] \<Longrightarrow> http w (GET u) = Inl e \<Longrightarrow> upload_image w self (Some u) = (Inl e, self, [GET u])"
  by (simp add: upload_image_def)

text \<open>
  Claim C10, as amended. For \<open>None\<close> and for the empty string \<open>upload_image\<close> returns
  the fixed media id and sends nothing. For any other \<open>image_url\<close> the first request
  is the fetch of the image; when the fetch fails nothing else is sent; when it succeeds
  \<open>ensure_access_token\<close> runs next, which exchanges credentials only when no fresh token
  is cached, and the upload of the image follows when a token was obtained.
\<close>

theorem upload_image_cases:
  "(image_url = None \<or> image_url = Some [] \<longrightarrow>
      upload_image w self image_url = (Inr (JStr default_media_id), self, []))
   \<and> (u \<noteq> [] \<and> http w (GET u) = Inl e \<longrightarrow>
        upload_image w self (Some u) = (Inl e, self, [GET u]))
   \<and> (u \<noteq> [] \<and> http w (GET u) = Inr img \<and> ensure_access_token w self = (tres, selfT, tr) \<longrightarrow>
        (\<exists>res. upload_image w self (Some u)
           = (res, selfT,
              GET u # tr @ (case tres of
                              Inl e \<Rightarrow> []
                            | Inr token \<Rightarrow> [POST (material_url token) (Files (resp_content img))]))
           \<and> (isl tres \<longrightarrow> isl res)))"
proof (intro conjI impI)
  assume "image_url = None \<or> image_url = Some []"
  then show "upload_image w self image_url = (Inr (JStr default_media_id), self, [])"
    by (auto simp: upload_image_def)
next
  assume "u \<noteq> [] \<and> http w (GET u) = Inl e"
  then show "upload_image w self (Some u) = (Inl e, self, [GET u])"
    by (simp add: upload_image_no_fetch)
next
  assume "u \<noteq> [] \<and> http w (GET u) = Inr img \<and> ensure_access_token w self = (tres, selfT, tr)"
  then show "\<exists>res. upload_image w self (Some u)
           = (res, selfT,
              GET u # tr @ (case tres of
                              Inl e \<Rightarrow> []
                            | Inr token \<Rightarrow> [POST (material_url token) (Files (resp_content img))]))
           \<and> (isl tres \<longrightarrow> isl res)"
    by (simp add: upload_image_fetch)
qed

theorem upload_image_cases_witness:
  "upload_image (wx_sample (\<lambda>req. Inl (Exn LibraryError []))) publisher_new (Some [])
     = (Inr (JStr default_media_id), publisher_new, [])
   \<and> upload_image (wx_sample (\<lambda>req. Inl (Exn LibraryError []))) publisher_new
       (Some (ascii ''http://x/img.jpg''))
     = (Inl (Exn LibraryError []), publisher_new, [GET (ascii ''http://x/img.jpg'')])
   \<and> (\<exists>res. upload_image
         (wx_sample (\<lambda>req. Inr (utf8_response [(ascii ''media_id'', JStr (ascii ''M2''))])))
         publisher_cached (Some (ascii ''http://x/img.jpg''))
       = (res, publisher_cached,
          [GET (ascii ''http://x/img.jpg''),
           POST (material_url (JStr (ascii ''T0''))) (Files [])]))"
proof -
  let ?w0 = "wx_sample (\<lambda>req. Inl (Exn LibraryError []))"
  let ?w1 = "wx_sample (\<lambda>req. Inr (utf8_response [(ascii ''media_id'', JStr (ascii ''M2''))]))"
  let ?u = "ascii ''http://x/img.jpg''"
  let ?img = "utf8_response [(ascii ''media_id'', JStr (ascii ''M2''))]"
  have n: "?u \<noteq> []" by (simp add: ascii_def)
  have h0: "http ?w0 (GET ?u) = Inl (Exn LibraryError [])" by (simp add: wx_sample_def)
  have h1: "http ?w1 (GET ?u) = Inr ?img" by (simp add: wx_sample_def)
  have c: "resp_content ?img = []" by (simp add: utf8_response_def)
  note t = upload_image_cases [where w = ?w0 and self = publisher_new and image_url = "Some []"
      and u = ?u and e = "Exn LibraryError []" and img = ?img and tres = "Inl (Exn LibraryError [])"
      and selfT = publisher_new and tr = "[]"]
  have y: "Some [] = None \<or> Some ([]::pystr) = Some []" by simp
  from t [THEN conjunct1, rule_format, OF y]
  have a: "upload_image ?w0 publisher_new (Some [])
      = (Inr (JStr default_media_id), publisher_new, [])" .
  have z: "?u \<noteq> [] \<and> http ?w0 (GET ?u) = Inl (Exn LibraryError [])"
    using n h0 by (rule conjI)
  from t [THEN conjunct2, THEN conjunct1, rule_format, OF z]
  have b: "upload_image ?w0 publisher_new (Some ?u)
      = (Inl (Exn LibraryError []), publisher_new, [GET ?u])" .
  have x: "?u \<noteq> [] \<and> http ?w1 (GET ?u) = Inr ?img
      \<and> ensure_access_token ?w1 publisher_cached = (Inr (JStr (ascii ''T0'')), publisher_cached, [])"
    using n h1 ensure_cached [of "\<lambda>req. Inr ?img"] by (intro conjI)
  note t1 = upload_image_cases [where w = ?w1 and self = publisher_cached and image_url = None
      and u = ?u and e = "Exn LibraryError []" and img = ?img
      and tres = "Inr (JStr (ascii ''T0''))" and selfT = publisher_cached and tr = "[]"]
  from t1 [THEN conjunct2, THEN conjunct2, rule_format, OF x]
  have d: "\<exists>res. upload_image ?w1 publisher_cached (Some ?u)
       = (res, publisher_cached, [GET ?u, POST (material_url (JStr (ascii ''T0''))) (Files [])])"
    by (simp add: c)
  show ?thesis by (rule conjI [OF a conjI [OF b d]])
qed

text \<open>
  Claim C10 as stated fails when a fresh token is cached: the image is fetched and
  uploaded with the cached token, and no request goes to the token endpoint.
\<close>

theorem upload_image_counterexample:
  "upload_image
     (wx_sample (\<lambda>req. Inr (utf8_response [(ascii ''media_id'', JStr (ascii ''M2''))])))
     publisher_cached (Some (ascii ''http://x/img.jpg''))
   = (Inr (JStr (ascii ''M2'')), publisher_cached,
      [GET (ascii ''http://x/img.jpg''),
       POST (material_url (JStr (ascii ''T0''))) (Files [])])"
proof -
  have k: "dict_item (map_of [(ascii ''media_id'', JStr (ascii ''M2''))]) (ascii ''media_id'')
      = Inr (JStr (ascii ''M2''))"
    "ascii ''errcode'' \<notin> dom (map_of [(ascii ''media_id'', JStr (ascii ''M2''))])"
    "ascii ''http://x/img.jpg'' \<noteq> []"
    by (simp_all add: dict_item_def ascii_def)
  show ?thesis
    by (simp add: upload_image_def Let_def ensure_cached http_sample utf8_response_def
          upload_image_response_def k(3))
       (simp add: dict_item_def ascii_def)
qed

section \<open>Properties of the browser publish engine\<close>

lemma selector_visible_page_of: "selector_visible (page_of d) sel = Inr (selector_shows d sel)"
  by (simp add: selector_visible_def page_of_def selector_shows_def)

lemma any_selector_visible_page_of:
  "any_selector_visible (page_of d) sels = Inr (list_ex (selector_shows d) sels)"
  by (induction sels) (simp_all add: selector_visible_page_of)

lemma check_login_body_page_of:
  "check_login_body (page_of d) = Inr (login_verification d = LoggedIn)"
  unfolding check_login_body_def any_selector_visible_page_of selector_visible_page_of
  by (simp add: page_of_def login_verification_def login_rules_def login_element_visible_def
        user_indicator_visible_def editor_present_def login_keyword_def
        publish_surface_visible_def)

lemma check_login_fail_safe: "isl (check_login_body p) \<Longrightarrow> \<not> check_login_status p"
  by (cases "check_login_body p") (simp_all add: check_login_status_def)



lemma editor_snapshot_logged_in:
  "check_login_status (page_of (snapshot_with [editor_selector]))"
proof -
  have "editor_present (snapshot_with [editor_selector])
      \<and> \<not> login_element_visible (snapshot_with [editor_selector])
      \<and> \<not> user_indicator_visible (snapshot_with [editor_selector])"
    by (simp add: editor_present_def login_element_visible_def login_selectors_def
          user_indicator_visible_def logged_in_selectors_def selector_shows_def
          snapshot_with_def editor_selector_def ascii_def)
  then show ?thesis
    by (simp add: check_login_status_def check_login_body_page_of login_verification_def
          login_rules_def)
qed

lemma preprocess_hi: "preprocess_content rt_default (PyStr (ascii ''hi'')) = Inr (ascii ''hi'')"
  by (simp add: preprocess_content_def unescape_def strip_control_def ascii_def)

text \<open>
  A run in which nothing raises: the operations of a successful publish, in order.
\<close>

lemma push_to_binance_sample_run:
  "push_to_binance (browser_sample (\<lambda>a. None) (page_of (snapshot_with [editor_selector])))
     publisher_sample (PyStr (ascii ''hi''))
   = (Inr pushed,
      [Sync_playwright_enter,
       Launch_persistent_context (ascii ''/home/u/.config/google-chrome''),
       New_page,
       Goto (ascii ''https://www.binance.com/zh-CN/square''),
       Debug_screenshot (ascii ''page_loaded''),
       Wait_for_load_state,
       Sleep 20,
       Debug_screenshot (ascii ''logged_in''),
       Editor_wait_for,
       Debug_screenshot (ascii ''editor_found''),
       Editor_clear,
       Editor_set_innerHTML (ascii ''hi''),
       Editor_click,
       Editor_has_text,
       Debug_screenshot (ascii ''content_entered''),
       Post_button_wait_for,
       Debug_screenshot (ascii ''before_post_click''),
       Post_button_click,
       Wait_for_timeout 5000,
       Debug_screenshot (ascii ''post_completed''),
       Browser_close,
       Sync_playwright_exit])"
proof -
  let ?w = "browser_sample (\<lambda>a. None) (page_of (snapshot_with [editor_selector]))"
  have f: "b_runtime ?w = rt_default" "raises ?w = (\<lambda>a. None)"
    "loaded_page ?w = page_of (snapshot_with [editor_selector])" "editor_has_text ?w"
    "\<not> is_chrome_running (process_names ?w)"
    "profile_path ?w publisher_sample = ascii ''/home/u/.config/google-chrome''"
    by (simp_all add: browser_sample_def is_chrome_running_def lower_def profile_path_def
          publisher_sample_def)
       (simp add: ascii_def)
  show ?thesis
    by (simp add: push_to_binance_def f preprocess_hi resolve_conflict_def and_then_def
          with_sync_playwright_def guarded_attempt_def attempt_def use_browser_def perform_def
          set_browser_def set_page_def save_debug_screenshot_def editor_snapshot_logged_in
          wait_for_editor_def enter_content_def click_post_button_def on_timeout_screenshot_def
          stmts_def close_browser_def)
qed

lemma and_then_InrE:
  assumes "and_then s k fr = (Inr r, fr')"
  obtains fr1 where "s fr = (None, fr1)" and "k fr1 = (Inr r, fr')"
  using assms by (auto simp: and_then_def split: prod.splits option.splits)

lemma attempt_Inr:
  "attempt w self c fr = (Inr r, fr') \<Longrightarrow> r = not_logged_in \<or> r = pushed"
  unfolding attempt_def use_browser_def
  by (elim and_then_InrE) (auto split: if_splits elim!: and_then_InrE)

lemma handle_attempt_error_result:
  "\<exists>path fr'. handle_attempt_error w self e fr
      = (Inr \<lparr>result_status = ascii ''error'',
              result_message =
                (if exn_class_of e = PlaywrightTimeoutError
                 then [0x9875, 0x9762, 0x5143, 0x7D20, 0x7B49, 0x5F85, 0x8D85, 0x65F6] @ ascii '': ''
                 else [0x63A8, 0x9001, 0x5931, 0x8D25] @ ascii '': '')
                @ str_exn e,
              result_screenshot = Some path\<rparr>, fr')"
  by (simp add: handle_attempt_error_def split: prod.splits)

lemma guarded_attempt_result:
  "\<exists>r fr'. guarded_attempt w self c fr = (Inr r, fr')
     \<and> (r = not_logged_in \<or> r = pushed
        \<or> (result_status r = ascii ''error'' \<and> result_screenshot r \<noteq> None))"
proof (cases "attempt w self c fr")
  case (Pair res fr1)
  show ?thesis
  proof (cases res)
    case (Inr r)
    with Pair attempt_Inr [of w self c fr r fr1] show ?thesis
      by (auto simp: guarded_attempt_def)
  next
    case (Inl e)
    from handle_attempt_error_result [of w self e fr1] obtain path fr2 where
      "handle_attempt_error w self e fr1
      = (Inr \<lparr>result_status = ascii ''error'',
              result_message =
                (if exn_class_of e = PlaywrightTimeoutError
                 then [0x9875, 0x9762, 0x5143, 0x7D20, 0x7B49, 0x5F85, 0x8D85, 0x65F6] @ ascii '': ''
                 else [0x63A8, 0x9001, 0x5931, 0x8D25] @ ascii '': '')
                @ str_exn e,
              result_screenshot = Some path\<rparr>, fr2)"
      by blast
    with Pair Inl show ?thesis
      by (simp add: guarded_attempt_def)
  qed
qed

lemma keeps_perform: "keeps t (perform w a)"
  by (simp add: keeps_def browser_kept_def perform_def)

lemma keeps_set_page: "keeps t set_page"
  by (simp add: keeps_def browser_kept_def set_page_def)

lemma keeps_Pair: "keeps t (Pair x)"
  by (simp add: keeps_def)

lemma keeps_debug: "keeps t (save_debug_screenshot w tag)"
  using keeps_perform [of t w "Debug_screenshot tag"]
  by (simp add: keeps_def save_debug_screenshot_def)

lemma keeps_stmts: "keeps t s1 \<Longrightarrow> keeps t s2 \<Longrightarrow> keeps t (stmts s1 s2)"
  unfolding keeps_def stmts_def
  by (auto split: prod.splits option.splits)

lemma keeps_and_then: "keeps t s \<Longrightarrow> keeps t k \<Longrightarrow> keeps t (and_then s k)"
  unfolding keeps_def and_then_def
  by (auto split: prod.splits option.splits)

lemma keeps_if: "keeps t a \<Longrightarrow> keeps t b \<Longrightarrow> keeps t (if c then a else b)"
  by simp

lemma keeps_on_timeout: "keeps t s \<Longrightarrow> keeps t (on_timeout_screenshot w tag s)"
  using keeps_debug [of t w tag]
  unfolding keeps_def on_timeout_screenshot_def
  by (auto split: prod.splits option.splits)

lemma keeps_use_browser: "keeps t (use_browser w c)"
  unfolding use_browser_def wait_for_editor_def enter_content_def click_post_button_def
  by (intro keeps_and_then keeps_if keeps_stmts keeps_on_timeout keeps_perform keeps_debug
        keeps_set_page keeps_Pair)


lemma attempt_launched:
  assumes "raises w (Launch_persistent_context (profile_path w self)) = None"
  shows "browser_kept (trace fr @ [Launch_persistent_context (profile_path w self)])
           (snd (attempt w self c fr))"
proof -
  let ?fr1 = "fr\<lparr>trace := trace fr @ [Launch_persistent_context (profile_path w self)],
                 browser_set := True\<rparr>"
  have "attempt w self c fr = use_browser w c ?fr1"
    using assms by (simp add: attempt_def and_then_def perform_def set_browser_def)
  moreover have "browser_kept (trace fr @ [Launch_persistent_context (profile_path w self)]) ?fr1"
    by (simp add: browser_kept_def)
  ultimately show ?thesis
    using keeps_use_browser [of "trace fr @ [Launch_persistent_context (profile_path w self)]" w c]
    by (simp add: keeps_def)
qed

lemma keeps_handle_attempt_error: "keeps t (handle_attempt_error w self e)"
  using keeps_perform [of t w Error_screenshot]
  by (auto simp: keeps_def handle_attempt_error_def save_error_screenshot_def
        split: prod.splits option.splits)

lemma guarded_attempt_closes:
  assumes "raises w (Launch_persistent_context (profile_path w self)) = None"
  shows "\<exists>pre. trace (snd (guarded_attempt w self c fr)) = pre @ [Browser_close]"
proof -
  let ?t = "trace fr @ [Launch_persistent_context (profile_path w self)]"
  obtain res fr1 where a: "attempt w self c fr = (res, fr1)" by (cases "attempt w self c fr")
  with attempt_launched [OF assms, of fr c] have k1: "browser_kept ?t fr1" by simp
  obtain out fr2 where b:
    "(case res of Inr r \<Rightarrow> (Inr r, fr1) | Inl e \<Rightarrow> handle_attempt_error w self e fr1) = (out, fr2)"
    by (cases "case res of Inr r \<Rightarrow> (Inr r, fr1) | Inl e \<Rightarrow> handle_attempt_error w self e fr1")
  have k2: "browser_kept ?t fr2"
  proof (cases res)
    case (Inr r)
    with b k1 show ?thesis by simp
  next
    case (Inl e)
    with b have "fr2 = snd (handle_attempt_error w self e fr1)" by simp
    with k1 keeps_handle_attempt_error [of ?t w self e] show ?thesis by (simp add: keeps_def)
  qed
  have "(case attempt w self c fr of
            (Inr r, fr1) \<Rightarrow> (Inr r, fr1)
          | (Inl e, fr1) \<Rightarrow> handle_attempt_error w self e fr1) = (out, fr2)"
    using b unfolding a by (cases res) auto
  then have g: "guarded_attempt w self c fr = (out, close_browser w fr2)"
    unfolding guarded_attempt_def by simp
  from k2 have "close_browser w fr2 = fr2\<lparr>trace := trace fr2 @ [Browser_close]\<rparr>"
    by (simp add: close_browser_def browser_kept_def perform_def)
  with g show ?thesis by simp
qed

lemma perform_all_trace:
  "\<exists>ops. snd (perform_all w todo fr) = fr\<lparr>trace := trace fr @ ops\<rparr> \<and> set ops \<subseteq> set todo"
proof (induction todo arbitrary: fr)
  case Nil
  then show ?case by simp
next
  case (Cons a todo)
  show ?case
  proof (cases "raises w a")
    case None
    from Cons [of "fr\<lparr>trace := trace fr @ [a]\<rparr>"] obtain ops where
      "snd (perform_all w todo (fr\<lparr>trace := trace fr @ [a]\<rparr>))
         = fr\<lparr>trace := trace fr @ [a]\<rparr>\<lparr>trace := trace (fr\<lparr>trace := trace fr @ [a]\<rparr>) @ ops\<rparr>"
      and "set ops \<subseteq> set todo"
      by blast
    with None show ?thesis
      by (intro exI [of _ "a # ops"]) (auto simp: perform_def)
  next
    case (Some e)
    then show ?thesis
      by (intro exI [of _ "[a]"]) (simp add: perform_def)
  qed
qed

lemma resolve_conflict_trace:
  "\<exists>ops. resolve_conflict w fr = (None, fr\<lparr>trace := trace fr @ ops\<rparr>)
     \<and> set ops \<subseteq> set (kill_commands w @ [Sleep 2])"
proof (cases "is_chrome_running (process_names w)")
  case False
  then show ?thesis
    by (intro exI [of _ "[]"]) (simp add: resolve_conflict_def)
next
  case True
  from perform_all_trace [of w "kill_commands w @ [Sleep 2]" fr] obtain ops where
    o: "snd (perform_all w (kill_commands w @ [Sleep 2]) fr) = fr\<lparr>trace := trace fr @ ops\<rparr>"
      "set ops \<subseteq> set (kill_commands w @ [Sleep 2])"
    by blast
  have "snd (close_all_chrome_instances w fr) = snd (perform_all w (kill_commands w @ [Sleep 2]) fr)"
    by (simp add: close_all_chrome_instances_def split: prod.splits option.splits)
  with True o show ?thesis
    by (intro exI [of _ ops]) (simp add: resolve_conflict_def)
qed

lemma kill_commands_no_launch: "Launch_persistent_context p \<notin> set (kill_commands w @ [Sleep 2])"
  by (simp add: kill_commands_def)

text \<open>
  What holds of \<open>push_to_binance\<close> once the content is pre-processed: it returns a
  result whose status is success or error, whatever is raised on the way, and when the
  browser was launched the last two operations are closing it and leaving Playwright.
\<close>

lemma push_to_binance_structured:
  assumes "preprocess_content (b_runtime w) c = Inr s"
  shows "\<exists>r tr. push_to_binance w self c = (Inr r, tr)
       \<and> (result_status r = ascii ''success'' \<or> result_status r = ascii ''error'')
       \<and> (raises w (Launch_persistent_context (profile_path w self)) = None
            \<and> Launch_persistent_context (profile_path w self) \<in> set tr
          \<longrightarrow> (\<exists>pre. tr = pre @ [Browser_close, Sync_playwright_exit]))"
proof -
  let ?L = "Launch_persistent_context (profile_path w self)"
  let ?fr0 = "\<lparr>browser_set = False, page_set = False, trace = []\<rparr>"
  from resolve_conflict_trace [of w ?fr0] obtain ops where
    rc: "resolve_conflict w ?fr0 = (None, ?fr0\<lparr>trace := trace ?fr0 @ ops\<rparr>)"
    and os: "set ops \<subseteq> set (kill_commands w @ [Sleep 2])"
    by blast
  let ?fra = "\<lparr>browser_set = False, page_set = False, trace = ops\<rparr>"
  let ?frb = "\<lparr>browser_set = False, page_set = False, trace = ops @ [Sync_playwright_enter]\<rparr>"
  from os kill_commands_no_launch [of "profile_path w self" w] have nl: "?L \<notin> set ops" by blast
  have st: "result_status not_logged_in = ascii ''error''" "result_status pushed = ascii ''success''"
    by (simp_all add: not_logged_in_def pushed_def)
  have run: "and_then (resolve_conflict w) (with_sync_playwright w (guarded_attempt w self s)) ?fr0
      = with_sync_playwright w (guarded_attempt w self s) ?fra"
    using rc by (simp add: and_then_def)
  show ?thesis
  proof (cases "raises w Sync_playwright_enter")
    case (Some e)
    then have "with_sync_playwright w (guarded_attempt w self s) ?fra = (Inl e, ?frb)"
      by (simp add: with_sync_playwright_def perform_def)
    with run assms nl show ?thesis
      by (simp add: push_to_binance_def)
  next
    case None
    from guarded_attempt_result [of w self s ?frb] obtain r frc where
      g: "guarded_attempt w self s ?frb = (Inr r, frc)"
      and gr: "r = not_logged_in \<or> r = pushed
        \<or> (result_status r = ascii ''error'' \<and> result_screenshot r \<noteq> None)"
      by blast
    from gr st have rs: "result_status r = ascii ''success'' \<or> result_status r = ascii ''error''"
      by auto
    have cl: "raises w ?L = None \<longrightarrow> (\<exists>pre. trace frc = pre @ [Browser_close])"
      using guarded_attempt_closes [of w self s ?frb] g by auto
    let ?frd = "frc\<lparr>trace := trace frc @ [Sync_playwright_exit]\<rparr>"
    have tr: "raises w ?L = None \<longrightarrow> (\<exists>pre. trace ?frd = pre @ [Browser_close, Sync_playwright_exit])"
      using cl by auto
    have w: "with_sync_playwright w (guarded_attempt w self s) ?fra
        = (case raises w Sync_playwright_exit of Some e \<Rightarrow> (Inl e, ?frd) | None \<Rightarrow> (Inr r, ?frd))"
      using None g by (simp add: with_sync_playwright_def perform_def split: option.splits)
    show ?thesis
    proof (cases "raises w Sync_playwright_exit")
      case None
      with w run assms rs tr show ?thesis
        by (simp add: push_to_binance_def)
    next
      case (Some e)
      with w run assms tr show ?thesis
        by (simp add: push_to_binance_def)
    qed
  qed
qed

lemma takeWhile_replicate_stop:
  "P x \<Longrightarrow> \<not> P y \<Longrightarrow> takeWhile P (replicate n x @ y # ys) = replicate n x"
  by (induction n) simp_all

lemma dropWhile_replicate_stop:
  "P x \<Longrightarrow> \<not> P y \<Longrightarrow> dropWhile P (replicate n x @ y # ys) = y # ys"
  by (induction n) simp_all

lemma dropWhile_replicate_none: "\<not> P x \<Longrightarrow> dropWhile P (replicate n x) = replicate n x"
  by (cases n) simp_all

lemma rstrip_semicolon_digits: "rstrip_semicolon (replicate n 57 @ [59]) = replicate n 57"
  by (simp add: rstrip_semicolon_def dropWhile_replicate_none)

lemma match_charref_digits:
  "0 < n \<Longrightarrow> match_charref (35 # replicate n 57 @ [59]) = Some (35 # replicate n 57 @ [59])"
  by (simp add: match_charref_def match_decimal_def is_digit_def opt_semicolon_def
        takeWhile_replicate_stop dropWhile_replicate_stop)

lemma replace_charref_digits:
  "int_max_str_digits rt \<noteq> 0 \<Longrightarrow> int_max_str_digits rt < n \<Longrightarrow>
     replace_charref rt (35 # replicate n 57 @ [59])
       = Inl (Exn ValueError (ascii ''Exceeds the limit for integer string conversion''))"
proof -
  assume a: "int_max_str_digits rt \<noteq> 0" "int_max_str_digits rt < n"
  then obtain k where k: "n = Suc k" by (cases n) simp_all
  have "int_decimal rt (rstrip_semicolon (replicate n 57 @ [59]))
      = Inl (Exn ValueError (ascii ''Exceeds the limit for integer string conversion''))"
    using a by (simp add: rstrip_semicolon_digits int_decimal_def)
  then show ?thesis
    by (simp add: replace_charref_def k)
qed

lemma unescape_digit_limit:
  "int_max_str_digits rt \<noteq> 0 \<Longrightarrow> int_max_str_digits rt < n \<Longrightarrow>
     unescape rt (38 # 35 # replicate n 57 @ [59])
       = Inl (Exn ValueError (ascii ''Exceeds the limit for integer string conversion''))"
  by (simp add: unescape_def match_charref_digits replace_charref_digits)

lemma preprocess_content_digit_limit:
  "int_max_str_digits rt \<noteq> 0 \<Longrightarrow> int_max_str_digits rt < n \<Longrightarrow>
     preprocess_content rt (PyStr (38 # 35 # replicate n 57 @ [59]))
       = Inl (Exn ValueError (ascii ''Exceeds the limit for integer string conversion''))"
  by (simp add: preprocess_content_def unescape_digit_limit)

text \<open>
  Claim C3 says that \<open>push_to_binance\<close> never lets an exception reach its caller. The
  content is pre-processed on line 50, before the \<open>try\<close> of line 54 is entered, and
  \<open>html.unescape\<close> converts a decimal character reference with \<open>int()\<close>, which raises
  \<open>ValueError\<close> beyond the interpreter's digit limit: on the text \<open>&#\<close>, 4301 times the
  digit 9, \<open>;\<close> the exception leaves \<open>push_to_binance\<close> before any operation is
  performed. The code departs from the claim here (the message of the exception is
  abridged).
\<close>

theorem push_to_binance_raises:
  "push_to_binance (browser_sample (\<lambda>a. None) (page_of (snapshot_with [editor_selector])))
     publisher_sample (PyStr (38 # 35 # replicate 4301 57 @ [59]))
   = (Inl (Exn ValueError (ascii ''Exceeds the limit for integer string conversion'')), [])"
proof -
  have "preprocess_content rt_default (PyStr (38 # 35 # replicate 4301 57 @ [59]))
       = Inl (Exn ValueError (ascii ''Exceeds the limit for integer string conversion''))"
    by (rule preprocess_content_digit_limit) (simp_all add: rt_default_def)
  then show ?thesis
    by (simp add: push_to_binance_def browser_sample_def)
qed

end
